theory Spec2Isabelle
  imports Complex_Main "HOL-Library.Product_Lexorder"
begin

section \<open>Data model (models.py)\<close>

text \<open>
  A Python \<open>datetime\<close> without time zone. Python compares two of them field by field,
  from the year down to the microsecond; \<open>dt_key\<close> is that lexicographic key.
\<close>

record datetime =
  year :: nat
  month :: nat
  day :: nat
  hour :: nat
  minute :: nat
  second :: nat
  microsecond :: nat

type_synonym date = "nat \<times> nat \<times> nat"

definition dt_key :: "datetime \<Rightarrow> nat \<times> nat \<times> nat \<times> nat \<times> nat \<times> nat \<times> nat" where
  "dt_key d = (year d, month d, day d, hour d, minute d, second d, microsecond d)"

definition dt_le :: "datetime \<Rightarrow> datetime \<Rightarrow> bool" where
  "dt_le a b = (dt_key a \<le> dt_key b)"

text \<open>\<open>func.date(created_at)\<close>: the calendar date of a timestamp.\<close>

definition date_of :: "datetime \<Rightarrow> date" where
  "date_of d = (year d, month d, day d)"

text \<open>
  The five tables. Every row is a record with the column names of models.py; the
  columns of two tables that share a name are told apart by the table's name
  (\<open>Post.user_id\<close>, \<open>Like.user_id\<close>). Identifiers are natural numbers. A Python \<open>str\<close>
  is a \<open>string\<close> whose characters are read as the code points U+0000 to U+00FF.
\<close>

record User =
  user_id :: nat
  username :: string
  name :: string
  email :: string
  password_hash :: string
  created_at :: datetime

record Post =
  post_id :: nat
  user_id :: nat
  content :: string
  created_at :: datetime

record Comment =
  comment_id :: nat
  post_id :: nat
  user_id :: nat
  content :: string
  created_at :: datetime

record Like =
  like_id :: nat
  post_id :: nat
  user_id :: nat
  created_at :: datetime

record Follower =
  follower_id :: nat
  follower_user_id :: nat
  followed_user_id :: nat
  created_at :: datetime

text \<open>
  The stored state: each table as the list of its rows in storage order, and the
  auto-increment counter of every primary key that a modelled handler allocates.
\<close>

record db =
  Users :: "User list"
  Posts :: "Post list"
  Comments :: "Comment list"
  Likes :: "Like list"
  Followers :: "Follower list"
  next_user_id :: nat
  next_like_id :: nat
  next_follower_id :: nat

section \<open>Responses\<close>

text \<open>
  What \<open>jsonify\<close> serialises: a JSON value. A handler returns the pair of the body and
  the status code, as the Python handlers do.
\<close>

datatype json =
    JNull
  | JBool bool
  | JInt int
  | JNum rat
  | JStr string
  | JList "json list"
  | JObj "(string \<times> json) list"

type_synonym response = "json \<times> nat"

definition status :: "response \<Rightarrow> nat" where
  "status r = snd r"

definition body :: "response \<Rightarrow> json" where
  "body r = fst r"

text \<open>Reading a key of a JSON object (\<open>None\<close> when the value is no object or lacks it).\<close>

definition jget :: "string \<Rightarrow> json \<Rightarrow> json option" where
  "jget k j = (case j of JObj kvs \<Rightarrow> map_of kvs k | _ \<Rightarrow> None)"

section \<open>Primary-key lookups\<close>

definition User_query_get :: "db \<Rightarrow> nat \<Rightarrow> User option" where
  "User_query_get st uid = find (\<lambda>u. User.user_id u = uid) (Users st)"

definition Post_query_get :: "db \<Rightarrow> nat \<Rightarrow> Post option" where
  "Post_query_get st pid = find (\<lambda>p. Post.post_id p = pid) (Posts st)"

section \<open>Like toggle (routes.py, toggle\_like)\<close>

text \<open>
  The identity of the token is the user id that \<open>handle_login\<close> put there
  (\<open>str(user.user_id)\<close>); the store compares it with integer columns, so the model
  carries the number. \<open>now\<close> is the value of \<open>datetime.utcnow\<close> that the column default
  of \<open>created_at\<close> reads.

  \<open>Like_filter_by st pid uid\<close> is \<open>Like.query.filter_by(post_id=pid, user_id=uid)\<close>.
\<close>

definition Like_filter_by :: "db \<Rightarrow> nat \<Rightarrow> nat \<Rightarrow> Like list" where
  "Like_filter_by st pid uid =
     filter (\<lambda>l. Like.post_id l = pid \<and> Like.user_id l = uid) (Likes st)"

definition first :: "'a list \<Rightarrow> 'a option" where
  "first xs = (case xs of [] \<Rightarrow> None | x # _ \<Rightarrow> Some x)"

text \<open>
  \<open>session.delete(row); commit\<close> is \<open>DELETE ... WHERE like_id = row.like_id\<close>.
  \<open>session.add(Like(post_id, user_id)); commit\<close> appends a row with the next
  identifier; the store refuses it (foreign key of \<open>Likes.user_id\<close>) when no user has
  that id, which the handler's \<open>except Exception\<close> turns into a rollback and 500.
\<close>

definition delete_like :: "db \<Rightarrow> Like \<Rightarrow> db" where
  "delete_like st row = st\<lparr>Likes := filter (\<lambda>l. like_id l \<noteq> like_id row) (Likes st)\<rparr>"

definition add_like :: "datetime \<Rightarrow> db \<Rightarrow> nat \<Rightarrow> nat \<Rightarrow> db option" where
  "add_like now st pid uid =
     (if User_query_get st uid = None then None
      else Some (st\<lparr>Likes := Likes st @
                       [\<lparr>like_id = next_like_id st, post_id = pid, user_id = uid,
                         created_at = now\<rparr>],
                    next_like_id := Suc (next_like_id st)\<rparr>))"

definition toggle_like :: "datetime \<Rightarrow> db \<Rightarrow> nat \<Rightarrow> nat \<Rightarrow> db \<times> response" where
  "toggle_like now st uid pid =
     (case Post_query_get st pid of
        None \<Rightarrow> (st, (JObj [(''error'', JStr ''Post not found'')], 404))
      | Some post \<Rightarrow>
          (case first (Like_filter_by st pid uid) of
             Some existing_like \<Rightarrow>
               (delete_like st existing_like,
                (JObj [(''message'', JStr ''Post unliked successfully''),
                       (''liked'', JBool False)], 200))
           | None \<Rightarrow>
               (case add_like now st pid uid of
                  Some st' \<Rightarrow>
                    (st', (JObj [(''message'', JStr ''Post liked successfully''),
                                 (''liked'', JBool True)], 201))
                | None \<Rightarrow>
                    (st, (JObj [(''error'', JStr ''Failed to process like'')], 500)))))"

text \<open>
  A sequence of like-toggle requests, applied one at a time: each request is the time
  it is served at, the requesting user and the post.
\<close>

definition run_toggles :: "db \<Rightarrow> (datetime \<times> nat \<times> nat) list \<Rightarrow> db" where
  "run_toggles st reqs = foldl (\<lambda>s (now, uid, pid). fst (toggle_like now s uid pid)) st reqs"

text \<open>At most one Like row for each (post, user) pair.\<close>

definition one_like_per_pair :: "db \<Rightarrow> bool" where
  "one_like_per_pair st = distinct (map (\<lambda>l. (Like.post_id l, Like.user_id l)) (Likes st))"

text \<open>Every stored like identifier is below the auto-increment counter.\<close>

definition like_ids_fresh :: "db \<Rightarrow> bool" where
  "like_ids_fresh st = list_all (\<lambda>l. like_id l < next_like_id st) (Likes st)"

section \<open>Follow toggle (routes.py, toggle\_follow)\<close>

text \<open>
  \<open>int(current_user_id) == user_id\<close> compares the number of the token's identity with
  the id of the route; the model carries that number. The insert is refused by the
  store (foreign key of \<open>Followers.follower_user_id\<close>) when the requesting user has no
  row.
\<close>

definition Follower_filter_by :: "db \<Rightarrow> nat \<Rightarrow> nat \<Rightarrow> Follower list" where
  "Follower_filter_by st follower followed =
     filter (\<lambda>f. follower_user_id f = follower \<and> followed_user_id f = followed)
       (Followers st)"

definition delete_follow :: "db \<Rightarrow> Follower \<Rightarrow> db" where
  "delete_follow st row =
     st\<lparr>Followers := filter (\<lambda>f. follower_id f \<noteq> follower_id row) (Followers st)\<rparr>"

definition add_follow :: "datetime \<Rightarrow> db \<Rightarrow> nat \<Rightarrow> nat \<Rightarrow> db option" where
  "add_follow now st follower followed =
     (if User_query_get st follower = None \<or> User_query_get st followed = None then None
      else Some (st\<lparr>Followers := Followers st @
                       [\<lparr>follower_id = next_follower_id st, follower_user_id = follower,
                         followed_user_id = followed, created_at = now\<rparr>],
                    next_follower_id := Suc (next_follower_id st)\<rparr>))"

definition toggle_follow :: "datetime \<Rightarrow> db \<Rightarrow> nat \<Rightarrow> nat \<Rightarrow> db \<times> response" where
  "toggle_follow now st current_user_id uid =
     (if current_user_id = uid
      then (st, (JObj [(''error'', JStr ''You cannot follow yourself'')], 400))
      else
        (case User_query_get st uid of
           None \<Rightarrow> (st, (JObj [(''error'', JStr ''User not found'')], 404))
         | Some target_user \<Rightarrow>
             (case first (Follower_filter_by st current_user_id uid) of
                Some existing_follow \<Rightarrow>
                  (delete_follow st existing_follow,
                   (JObj [(''message'', JStr ''User unfollowed successfully'')], 200))
              | None \<Rightarrow>
                  (case add_follow now st current_user_id uid of
                     Some st' \<Rightarrow>
                       (st', (JObj [(''message'', JStr ''User followed successfully'')], 201))
                   | None \<Rightarrow>
                       (st, (JObj [(''error'', JStr ''Failed to process follow request'')],
                             500))))))"

section \<open>Aggregation queries\<close>

text \<open>\<open>count(distinct column)\<close> over the joined rows of a group.\<close>

definition count_distinct :: "'a list \<Rightarrow> nat" where
  "count_distinct xs = length (remdups xs)"

definition likes_count :: "db \<Rightarrow> nat \<Rightarrow> nat" where
  "likes_count st pid =
     count_distinct (map like_id (filter (\<lambda>l. Like.post_id l = pid) (Likes st)))"

definition comments_count :: "db \<Rightarrow> nat \<Rightarrow> nat" where
  "comments_count st pid =
     count_distinct (map comment_id (filter (\<lambda>c. Comment.post_id c = pid) (Comments st)))"

text \<open>
  The base query of the discover feed and of the top posts: Post joined with its
  author, left-joined with Like and Comment, grouped by (post id, user id), with the
  two distinct counts. Primary keys are unique in the store, so every joined
  (post, author) pair is one group.
\<close>

definition counted_posts :: "db \<Rightarrow> (Post \<times> User \<times> nat \<times> nat) list" where
  "counted_posts st =
     [(p, u, likes_count st (Post.post_id p), comments_count st (Post.post_id p)).
        p \<leftarrow> Posts st, u \<leftarrow> Users st, User.user_id u = Post.user_id p]"

text \<open>
  \<open>ORDER BY key DESC\<close>. SQL leaves the order of rows with equal keys open; the model
  fixes one.
\<close>

definition order_by_desc :: "('a \<Rightarrow> 'k::linorder) \<Rightarrow> 'a list \<Rightarrow> 'a list" where
  "order_by_desc f xs = rev (sort_key f xs)"

section \<open>Formatting and parsing\<close>

definition digit_char :: "nat \<Rightarrow> char" where
  "digit_char n = char_of (48 + n mod 10)"

text \<open>The decimal digits of \<open>n\<close>, padded with zeros to width \<open>w\<close> (\<open>%0wd\<close>, for \<open>n < 10 ^ w\<close>).\<close>

primrec zero_pad :: "nat \<Rightarrow> nat \<Rightarrow> string" where
  "zero_pad 0 n = []"
| "zero_pad (Suc w) n = zero_pad w (n div 10) @ [digit_char n]"

definition date_isoformat :: "date \<Rightarrow> string" where
  "date_isoformat d =
     (case d of (y, m, dd) \<Rightarrow>
        zero_pad 4 y @ ''-'' @ zero_pad 2 m @ ''-'' @ zero_pad 2 dd)"

definition isoformat :: "datetime \<Rightarrow> string" where
  "isoformat d =
     date_isoformat (date_of d) @ ''T'' @ zero_pad 2 (hour d) @ '':'' @
     zero_pad 2 (minute d) @ '':'' @ zero_pad 2 (second d) @
     (if microsecond d = 0 then [] else ''.'' @ zero_pad 6 (microsecond d))"

text \<open>
  \<open>str.isdigit\<close> on the code points below 256: true of the decimal digits and of the
  superscripts U+00B2, U+00B3 and U+00B9; false of the empty string.
\<close>

definition isdigit_char :: "char \<Rightarrow> bool" where
  "isdigit_char c =
     (let n = (of_char c :: nat)
      in (48 \<le> n \<and> n \<le> 57) \<or> n = 178 \<or> n = 179 \<or> n = 185)"

definition isdigit :: "string \<Rightarrow> bool" where
  "isdigit s = (s \<noteq> [] \<and> list_all isdigit_char s)"

datatype py_error = ValueError | AttributeError | IntegrityError

text \<open>
  \<open>int(s)\<close> for a string that passed \<open>isdigit\<close>: its value when every character is
  a decimal digit, ValueError otherwise (a superscript digit is no literal). The bound
  that recent Python versions put on the number of digits is not modelled.
\<close>

definition decimal_char :: "char \<Rightarrow> bool" where
  "decimal_char c = (let n = (of_char c :: nat) in 48 \<le> n \<and> n \<le> 57)"

definition py_int :: "string \<Rightarrow> py_error + nat" where
  "py_int s =
     (if s \<noteq> [] \<and> list_all decimal_char s
      then Inr (foldl (\<lambda>acc c. 10 * acc + (of_char c - 48)) 0 s)
      else Inl ValueError)"

section \<open>Discover feed (routes.py, get\_discover\_posts)\<close>

text \<open>
  The query parameters; \<open>None\<close> is a parameter that the request does not carry.
\<close>

record discover_args =
  date_from :: "string option"
  date_to :: "string option"
  min_likes :: "string option"
  author :: "string option"

definition start_of_day :: "datetime \<Rightarrow> datetime" where
  "start_of_day d = d\<lparr>hour := 0, minute := 0, second := 0, microsecond := 0\<rparr>"

definition end_of_day :: "datetime \<Rightarrow> datetime" where
  "end_of_day d = d\<lparr>hour := 23, minute := 59, second := 59, microsecond := 999999\<rparr>"

text \<open>Python's truth value of an optional string: absent and empty are false.\<close>

definition truthy :: "string option \<Rightarrow> bool" where
  "truthy s = (case s of None \<Rightarrow> False | Some v \<Rightarrow> v \<noteq> [])"

text \<open>
  The bounds that the handler adds to the query. \<open>fromisoformat\<close> is the library's
  \<open>datetime.fromisoformat\<close>, a parameter of the model: \<open>None\<close> is its ValueError, which
  the handler swallows (\<open>except ValueError: pass\<close>), leaving the query without the bound.
\<close>

definition from_bound :: "(string \<Rightarrow> datetime option) \<Rightarrow> discover_args \<Rightarrow> datetime option" where
  "from_bound fromisoformat args =
     (case date_from args of
        None \<Rightarrow> None
      | Some s \<Rightarrow> if s = [] then None else map_option start_of_day (fromisoformat s))"

definition to_bound :: "(string \<Rightarrow> datetime option) \<Rightarrow> discover_args \<Rightarrow> datetime option" where
  "to_bound fromisoformat args =
     (case date_to args of
        None \<Rightarrow> None
      | Some s \<Rightarrow> if s = [] then None else map_option end_of_day (fromisoformat s))"

text \<open>
  \<open>if min_likes and min_likes.isdigit(): ... int(min_likes)\<close>: no bound when the
  parameter is absent, empty or not all digits; the ValueError of \<open>int\<close> is not caught
  where it is raised and reaches the handler's \<open>except Exception\<close>.
\<close>

definition likes_bound :: "discover_args \<Rightarrow> py_error + nat option" where
  "likes_bound args =
     (case min_likes args of
        None \<Rightarrow> Inr None
      | Some s \<Rightarrow>
          if s \<noteq> [] \<and> isdigit s
          then (case py_int s of Inl e \<Rightarrow> Inl e | Inr n \<Rightarrow> Inr (Some n))
          else Inr None)"

text \<open>
  The filtered, ordered and limited query. \<open>ilike\<close> is the store's case-insensitive
  \<open>LIKE\<close> (value, then pattern), a parameter of the model.
\<close>

definition discover_where ::
  "(string \<Rightarrow> datetime option) \<Rightarrow> (string \<Rightarrow> string \<Rightarrow> bool) \<Rightarrow> discover_args \<Rightarrow> nat option \<Rightarrow>
   Post \<times> User \<times> nat \<times> nat \<Rightarrow> bool" where
  "discover_where fromisoformat ilike args bound row =
     (case row of (p, u, likes, comments) \<Rightarrow>
        (case from_bound fromisoformat args of
           None \<Rightarrow> True | Some from_date \<Rightarrow> dt_le from_date (Post.created_at p)) \<and>
        (case to_bound fromisoformat args of
           None \<Rightarrow> True | Some to_date \<Rightarrow> dt_le (Post.created_at p) to_date) \<and>
        (case bound of None \<Rightarrow> True | Some n \<Rightarrow> n \<le> likes) \<and>
        (case author args of
           None \<Rightarrow> True
         | Some a \<Rightarrow> a = [] \<or> ilike (username u) (''%'' @ a @ ''%'')))"

definition discover_results ::
  "(string \<Rightarrow> datetime option) \<Rightarrow> (string \<Rightarrow> string \<Rightarrow> bool) \<Rightarrow> db \<Rightarrow> discover_args \<Rightarrow>
   py_error + (Post \<times> User \<times> nat \<times> nat) list" where
  "discover_results fromisoformat ilike st args =
     (case likes_bound args of
        Inl e \<Rightarrow> Inl e
      | Inr bound \<Rightarrow>
          Inr (take 20
                (order_by_desc (\<lambda>(p, u, likes, comments). dt_key (Post.created_at p))
                   (filter (discover_where fromisoformat ilike args bound)
                      (counted_posts st)))))"

text \<open>The first error of a list of results, or all the values.\<close>

fun collect :: "('e + 'a) list \<Rightarrow> 'e + 'a list" where
  "collect [] = Inr []"
| "collect (Inl e # rs) = Inl e"
| "collect (Inr x # rs) = (case collect rs of Inl e \<Rightarrow> Inl e | Inr xs \<Rightarrow> Inr (x # xs))"

definition author_json :: "User \<Rightarrow> json" where
  "author_json u =
     JObj [(''user_id'', JInt (int (User.user_id u))), (''username'', JStr (username u)),
           (''name'', JStr (name u))]"

text \<open>
  A comment with its author inlined; \<open>User.query.get\<close> returning \<open>None\<close> makes the
  attribute access raise.
\<close>

definition comment_json :: "db \<Rightarrow> Comment \<Rightarrow> py_error + json" where
  "comment_json st c =
     (case User_query_get st (Comment.user_id c) of
        None \<Rightarrow> Inl AttributeError
      | Some comment_author \<Rightarrow>
          Inr (JObj [(''comment_id'', JInt (int (comment_id c))),
                     (''content'', JStr (Comment.content c)),
                     (''created_at'', JStr (isoformat (Comment.created_at c))),
                     (''author'', author_json comment_author)]))"

definition post_comments :: "db \<Rightarrow> nat \<Rightarrow> Comment list" where
  "post_comments st pid =
     sort_key (\<lambda>c. dt_key (Comment.created_at c))
       (filter (\<lambda>c. Comment.post_id c = pid) (Comments st))"

definition discover_post_json ::
  "db \<Rightarrow> nat \<Rightarrow> Post \<times> User \<times> nat \<times> nat \<Rightarrow> py_error + json" where
  "discover_post_json st uid row =
     (case row of (post, post_author, likes, comments) \<Rightarrow>
        (let user_liked = (first (Like_filter_by st (Post.post_id post) uid) \<noteq> None)
         in case collect (map (comment_json st) (post_comments st (Post.post_id post))) of
              Inl e \<Rightarrow> Inl e
            | Inr comments_data \<Rightarrow>
                Inr (JObj [(''post_id'', JInt (int (Post.post_id post))),
                           (''content'', JStr (Post.content post)),
                           (''created_at'', JStr (isoformat (Post.created_at post))),
                           (''likes_count'', JInt (int likes)),
                           (''comments_count'', JInt (int comments)),
                           (''user_liked'', JBool user_liked),
                           (''comments'', JList comments_data),
                           (''author'', author_json post_author)])))"

definition get_discover_posts ::
  "(string \<Rightarrow> datetime option) \<Rightarrow> (string \<Rightarrow> string \<Rightarrow> bool) \<Rightarrow> db \<Rightarrow> nat \<Rightarrow> discover_args \<Rightarrow>
   response" where
  "get_discover_posts fromisoformat ilike st uid args =
     (case discover_results fromisoformat ilike st args of
        Inl e \<Rightarrow> (JObj [(''error'', JStr ''Failed to fetch posts'')], 500)
      | Inr results \<Rightarrow>
          (case collect (map (discover_post_json st uid) results) of
             Inl e \<Rightarrow> (JObj [(''error'', JStr ''Failed to fetch posts'')], 500)
           | Inr posts_data \<Rightarrow> (JObj [(''posts'', JList posts_data)], 200)))"

text \<open>
  An instance of the \<open>fromisoformat\<close> parameter, to run the model on concrete
  requests: it reads the date-only form \<open>YYYY-MM-DD\<close> (decimal digits, a valid calendar
  date, midnight as the time), as \<open>datetime.fromisoformat\<close> does, and answers \<open>None\<close>,
  the ValueError, for every other string.
\<close>

definition digits_value :: "string \<Rightarrow> nat" where
  "digits_value s = foldl (\<lambda>acc c. 10 * acc + (of_char c - 48)) 0 s"

definition leap_year :: "nat \<Rightarrow> bool" where
  "leap_year y = (y mod 4 = 0 \<and> (y mod 100 \<noteq> 0 \<or> y mod 400 = 0))"

definition days_in_month :: "nat \<Rightarrow> nat \<Rightarrow> nat" where
  "days_in_month y m =
     (if m = 2 then (if leap_year y then 29 else 28)
      else if m = 4 \<or> m = 6 \<or> m = 9 \<or> m = 11 then 30 else 31)"

definition fromisoformat_date :: "string \<Rightarrow> datetime option" where
  "fromisoformat_date s =
     (if length s = 10 \<and> s ! 4 = CHR ''-'' \<and> s ! 7 = CHR ''-'' \<and>
         list_all decimal_char (take 4 s @ take 2 (drop 5 s) @ drop 8 s)
      then
        (let y = digits_value (take 4 s); m = digits_value (take 2 (drop 5 s));
             d = digits_value (drop 8 s)
         in if 1 \<le> y \<and> 1 \<le> m \<and> m \<le> 12 \<and> 1 \<le> d \<and> d \<le> days_in_month y m
            then Some \<lparr>year = y, month = m, day = d, hour = 0, minute = 0, second = 0,
                       microsecond = 0\<rparr>
            else None)
      else None)"

section \<open>Top posts (routes.py, get\_top\_posts)\<close>

definition top_posts :: "db \<Rightarrow> (Post \<times> User \<times> nat \<times> nat \<times> nat) list" where
  "top_posts st =
     take 10
       (order_by_desc (\<lambda>(p, u, likes, comments, engagement_score). engagement_score)
          (map (\<lambda>(p, u, likes, comments). (p, u, likes, comments, likes + comments))
             (counted_posts st)))"

definition top_post_json :: "Post \<times> User \<times> nat \<times> nat \<times> nat \<Rightarrow> json" where
  "top_post_json row =
     (case row of (post, post_author, likes, comments, engagement_score) \<Rightarrow>
        JObj [(''post_id'', JInt (int (Post.post_id post))),
              (''content'', JStr (Post.content post)),
              (''created_at'', JStr (isoformat (Post.created_at post))),
              (''author'', author_json post_author),
              (''likes_count'', JInt (int likes)),
              (''comments_count'', JInt (int comments)),
              (''engagement_score'', JInt (int engagement_score))])"

definition get_top_posts :: "db \<Rightarrow> response" where
  "get_top_posts st = (JObj [(''top_posts'', JList (map top_post_json (top_posts st)))], 200)"

section \<open>Engagement by date (routes.py, get\_engagement\_by\_date)\<close>

text \<open>
  The posts of the user, left-joined with Like and Comment and grouped by the date of
  the post: one row for each date, with the distinct posts, likes and comments of
  the group.
\<close>

definition user_posts :: "db \<Rightarrow> nat \<Rightarrow> Post list" where
  "user_posts st uid = filter (\<lambda>p. Post.user_id p = uid) (Posts st)"

definition engagement_row :: "db \<Rightarrow> nat \<Rightarrow> date \<Rightarrow> date \<times> nat \<times> nat \<times> nat" where
  "engagement_row st uid d =
     (let pids = map Post.post_id
                   (filter (\<lambda>p. date_of (Post.created_at p) = d) (user_posts st uid))
      in (d,
          count_distinct pids,
          count_distinct (map like_id (filter (\<lambda>l. Like.post_id l \<in> set pids) (Likes st))),
          count_distinct
            (map comment_id (filter (\<lambda>c. Comment.post_id c \<in> set pids) (Comments st)))))"

definition engagement_data :: "db \<Rightarrow> nat \<Rightarrow> (date \<times> nat \<times> nat \<times> nat) list" where
  "engagement_data st uid =
     take 30
       (order_by_desc fst
          (map (engagement_row st uid)
             (remdups (map (\<lambda>p. date_of (Post.created_at p)) (user_posts st uid)))))"

definition engagement_json :: "date \<times> nat \<times> nat \<times> nat \<Rightarrow> json" where
  "engagement_json row =
     (case row of (d, posts_count, likes, comments) \<Rightarrow>
        JObj [(''date'', JStr (date_isoformat d)),
              (''posts_count'', JInt (int posts_count)),
              (''likes_count'', JInt (int likes)),
              (''comments_count'', JInt (int comments))])"

definition get_engagement_by_date :: "db \<Rightarrow> nat \<Rightarrow> response" where
  "get_engagement_by_date st uid =
     (JObj [(''engagement_by_date'', JList (map engagement_json (engagement_data st uid)))],
      200)"

section \<open>Aggregate statistics (routes.py, get\_post\_stats)\<close>

text \<open>
  \<open>NULLIF(x, 0)\<close> and the division of the store (MySQL, config.py): a NULL operand
  or a zero divisor gives NULL, otherwise the quotient of two integers is a decimal
  with four places, rounded half up.
\<close>

definition nullif :: "nat \<Rightarrow> nat \<Rightarrow> nat option" where
  "nullif x y = (if x = y then None else Some x)"

definition sql_div :: "nat \<Rightarrow> nat option \<Rightarrow> rat option" where
  "sql_div a b =
     (case b of
        None \<Rightarrow> None
      | Some d \<Rightarrow>
          if d = 0 then None
          else Some (Fract (int ((2 * 10000 * a + d) div (2 * d))) 10000))"

text \<open>\<open>float(x or 0)\<close>: NULL and zero both give 0.\<close>

definition or_zero :: "rat option \<Rightarrow> rat" where
  "or_zero x = (case x of None \<Rightarrow> 0 | Some q \<Rightarrow> if q = 0 then 0 else q)"

definition get_post_stats :: "db \<Rightarrow> nat \<Rightarrow> response" where
  "get_post_stats st uid =
     (let pids = map Post.post_id (user_posts st uid);
          total_posts = count_distinct pids;
          total_likes =
            count_distinct (map like_id (filter (\<lambda>l. Like.post_id l \<in> set pids) (Likes st)));
          total_comments =
            count_distinct
              (map comment_id (filter (\<lambda>c. Comment.post_id c \<in> set pids) (Comments st)));
          avg_likes_per_post = sql_div total_likes (nullif total_posts 0);
          avg_comments_per_post = sql_div total_comments (nullif total_posts 0)
      in (JObj [(''total_posts'', JInt (int total_posts)),
                (''total_likes'', JInt (int total_likes)),
                (''total_comments'', JInt (int total_comments)),
                (''average_likes_per_post'', JNum (or_zero avg_likes_per_post)),
                (''average_comments_per_post'', JNum (or_zero avg_comments_per_post))],
          200))"

section \<open>Registration (routes.py, handle\_register)\<close>

text \<open>
  The request: its content type and the JSON object of its body, as the list of its
  keys with their values, which are strings (\<open>map_of\<close> is the lookup).
  \<open>validate_email\<close> and \<open>validate_password\<close> (forms.py) and the password hash of the
  library are parameters of the handler. The unique columns \<open>username\<close> and \<open>email\<close>
  make the store refuse the insert with IntegrityError; values are taken to fit their
  columns.
\<close>

record register_request =
  content_type :: string
  data :: "(string \<times> string) list"

definition add_user ::
  "datetime \<Rightarrow> db \<Rightarrow> string \<Rightarrow> string \<Rightarrow> string \<Rightarrow> string \<Rightarrow> py_error + db" where
  "add_user now st un nm em ph =
     (if list_ex (\<lambda>u. username u = un \<or> email u = em) (Users st) then Inl IntegrityError
      else Inr (st\<lparr>Users := Users st @
                      [\<lparr>User.user_id = next_user_id st, username = un, name = nm, email = em,
                        password_hash = ph, created_at = now\<rparr>],
                   next_user_id := Suc (next_user_id st)\<rparr>))"

definition handle_register ::
  "(string \<Rightarrow> bool) \<Rightarrow> (string \<Rightarrow> bool) \<Rightarrow> (string \<Rightarrow> string) \<Rightarrow> datetime \<Rightarrow> db \<Rightarrow>
   register_request \<Rightarrow> db \<times> response" where
  "handle_register validate_email validate_password generate_password_hash now st req =
     (if content_type req \<noteq> ''application/json''
      then (st, (JObj [(''error'', JStr ''Content-Type must be application/json'')], 400))
      else
        (case (map_of (data req) ''username'', map_of (data req) ''name'',
               map_of (data req) ''email'', map_of (data req) ''password'') of
           (Some un, Some nm, Some em, Some pw) \<Rightarrow>
             if \<not> validate_email em
             then (st, (JObj [(''error'', JStr ''Invalid email format'')], 400))
             else if \<not> validate_password pw
             then (st, (JObj [(''error'', JStr ''Password does not meet requirements'')],
                        400))
             else
               (case add_user now st un nm em (generate_password_hash pw) of
                  Inr st' \<Rightarrow>
                    (st', (JObj [(''message'', JStr ''User registered successfully''),
                                 (''user_id'', JInt (int (next_user_id st)))], 201))
                | Inl e \<Rightarrow>
                    (st, (JObj [(''error'', JStr ''Username or email already exists'')],
                          409)))
         | _ \<Rightarrow> (st, (JObj [(''error'', JStr ''Missing required fields'')], 400))))"

section \<open>Profile update (routes.py, update\_user\_profile)\<close>

text \<open>
  \<open>changed new current\<close>: the new value when the body carries one that is not empty
  and differs from the current one (\<open>if new and new != current\<close>).
\<close>

definition changed :: "string option \<Rightarrow> string \<Rightarrow> string option" where
  "changed new current =
     (case new of
        None \<Rightarrow> None
      | Some v \<Rightarrow> if v \<noteq> [] \<and> v \<noteq> current then Some v else None)"

text \<open>
  The commit writes the row of the user back; the store refuses it when another row
  holds the same username or email, and the handler's \<open>except Exception\<close> answers 500
  (it calls no rollback; the write is not stored).

  The handler reads the store first (the user, the username lookup, the email lookup)
  and writes once, at the commit. In \<open>update_user_profile_at\<close>, \<open>seen\<close> is the store as
  the lookups read it and \<open>st\<close> the store that the commit meets: the two differ when
  another request commits between the lookups and the commit. \<open>update_user_profile\<close>
  is the handler with no request in between.
\<close>

definition commit_user :: "db \<Rightarrow> User \<Rightarrow> py_error + db" where
  "commit_user st user' =
     (if list_ex (\<lambda>u. User.user_id u \<noteq> User.user_id user' \<and>
                       (username u = username user' \<or> email u = email user')) (Users st)
      then Inl IntegrityError
      else Inr (st\<lparr>Users := map (\<lambda>u. if User.user_id u = User.user_id user' then user' else u)
                                (Users st)\<rparr>))"

definition update_user_profile_at ::
  "db \<Rightarrow> db \<Rightarrow> nat \<Rightarrow> (string \<times> string) list \<Rightarrow> db \<times> response" where
  "update_user_profile_at seen st uid body_data =
     (case User_query_get seen uid of
        None \<Rightarrow> (st, (JObj [(''error'', JStr ''User not found'')], 404))
      | Some user \<Rightarrow>
          (let new_username = changed (map_of body_data ''username'') (username user) in
           if new_username \<noteq> None \<and>
              find (\<lambda>u. Some (username u) = new_username) (Users seen) \<noteq> None
           then (st, (JObj [(''error'', JStr ''Username already taken'')], 400))
           else
             (let user1 = (case new_username of None \<Rightarrow> user
                           | Some v \<Rightarrow> user\<lparr>username := v\<rparr>);
                  new_email = changed (map_of body_data ''email'') (email user1) in
              if new_email \<noteq> None \<and>
                 find (\<lambda>u. Some (email u) = new_email) (Users seen) \<noteq> None
              then (st, (JObj [(''error'', JStr ''Email already registered'')], 400))
              else
                (let user2 = (case new_email of None \<Rightarrow> user1
                              | Some v \<Rightarrow> user1\<lparr>email := v\<rparr>);
                     user3 = (case map_of body_data ''name'' of
                                None \<Rightarrow> user2
                              | Some v \<Rightarrow> if v \<noteq> [] then user2\<lparr>name := v\<rparr> else user2)
                 in case commit_user st user3 of
                      Inl e \<Rightarrow>
                        (st, (JObj [(''error'', JStr ''Failed to update profile'')], 500))
                    | Inr st' \<Rightarrow>
                        (st', (JObj [(''message'', JStr ''Profile updated successfully''),
                                     (''user_id'', JInt (int (User.user_id user3))),
                                     (''username'', JStr (username user3)),
                                     (''name'', JStr (name user3)),
                                     (''email'', JStr (email user3))], 200))))))"

definition update_user_profile ::
  "db \<Rightarrow> nat \<Rightarrow> (string \<times> string) list \<Rightarrow> db \<times> response" where
  "update_user_profile st uid body_data = update_user_profile_at st st uid body_data"

section \<open>Instances and a sample state\<close>

text \<open>
  An instance of the \<open>ilike\<close> parameter: \<open>LIKE\<close> with the wildcards \<open>%\<close> and \<open>_\<close>, on
  strings compared without regard to the case of ASCII letters.
\<close>

definition lower_char :: "char \<Rightarrow> char" where
  "lower_char c = (let n = (of_char c :: nat) in if 65 \<le> n \<and> n \<le> 90 then char_of (n + 32) else c)"

fun like :: "string \<Rightarrow> string \<Rightarrow> bool" where
  "like v [] = (v = [])"
| "like [] (c # p) = (c = CHR ''%'' \<and> like [] p)"
| "like (x # v) (c # p) =
     (if c = CHR ''%'' then like (x # v) p \<or> like v (c # p)
      else (c = CHR ''_'' \<or> c = x) \<and> like v p)"

definition ilike_ascii :: "string \<Rightarrow> string \<Rightarrow> bool" where
  "ilike_ascii v p = like (map lower_char v) (map lower_char p)"

text \<open>Instances of the validators and of the password hash of the registration.\<close>

definition has_at_sign :: "string \<Rightarrow> bool" where
  "has_at_sign s = (CHR ''@'' \<in> set s)"

definition at_least_8 :: "string \<Rightarrow> bool" where
  "at_least_8 s = (8 \<le> length s)"

definition sample_hash :: "string \<Rightarrow> string" where
  "sample_hash s = ''$2b$12$'' @ rev s"

text \<open>
  A state with three users, three posts, one comment and two likes: alice wrote two
  posts on 10 January 2024, bob one on 1 June 2020, carol none.
\<close>

definition stamp :: "nat \<Rightarrow> nat \<Rightarrow> nat \<Rightarrow> nat \<Rightarrow> nat \<Rightarrow> datetime" where
  "stamp y m d h mi = \<lparr>year = y, month = m, day = d, hour = h, minute = mi, second = 0,
                    microsecond = 0\<rparr>"

definition alice :: User where
  "alice = \<lparr>User.user_id = 1, username = ''alice'', name = ''Alice'',
            email = ''alice@example.com'', password_hash = ''h1'',
            created_at = stamp 2020 1 1 0 0\<rparr>"

definition bob :: User where
  "bob = \<lparr>User.user_id = 2, username = ''bob'', name = ''Bob'',
          email = ''bob@example.com'', password_hash = ''h2'',
          created_at = stamp 2020 1 2 0 0\<rparr>"

definition carol :: User where
  "carol = \<lparr>User.user_id = 3, username = ''carol'', name = ''Carol'',
            email = ''carol@example.com'', password_hash = ''h3'',
            created_at = stamp 2020 1 3 0 0\<rparr>"

definition post1 :: Post where
  "post1 = \<lparr>Post.post_id = 1, user_id = 1, content = ''first'',
            created_at = stamp 2024 1 10 9 30\<rparr>"

definition post2 :: Post where
  "post2 = \<lparr>Post.post_id = 2, user_id = 1, content = ''second'',
            created_at = stamp 2024 1 10 18 0\<rparr>"

definition post3 :: Post where
  "post3 = \<lparr>Post.post_id = 3, user_id = 2, content = ''old'',
            created_at = stamp 2020 6 1 8 0\<rparr>"

definition comment1 :: Comment where
  "comment1 = \<lparr>comment_id = 1, post_id = 1, user_id = 2, content = ''nice'',
               created_at = stamp 2024 1 11 7 0\<rparr>"

definition like1 :: Like where
  "like1 = \<lparr>like_id = 1, post_id = 1, user_id = 2, created_at = stamp 2024 1 10 10 0\<rparr>"

definition like2 :: Like where
  "like2 = \<lparr>like_id = 2, post_id = 2, user_id = 2, created_at = stamp 2024 1 10 19 0\<rparr>"

definition sample_db :: db where
  "sample_db = \<lparr>Users = [alice, bob, carol], Posts = [post1, post2, post3],
                Comments = [comment1], Likes = [like1, like2], Followers = [],
                next_user_id = 4, next_like_id = 3, next_follower_id = 1\<rparr>"

text \<open>
  The foreign key of \<open>Comments.user_id\<close>: every comment has its author among the users.
\<close>

definition comments_have_authors :: "db \<Rightarrow> bool" where
  "comments_have_authors st =
     list_all (\<lambda>c. list_ex (\<lambda>u. User.user_id u = Comment.user_id c) (Users st)) (Comments st)"

text \<open>
  Two discover-feed requests: one with well-formed filters for January 2024 and at
  least one like, one whose three filters are all malformed.
\<close>

definition january_args :: discover_args where
  "january_args = \<lparr>date_from = Some ''2024-01-01'', date_to = Some ''2024-01-31'',
                    min_likes = Some ''1'', author = None\<rparr>"

definition malformed_args :: discover_args where
  "malformed_args = \<lparr>date_from = Some ''2024-1-1'', date_to = Some ''2024-1-31'',
                      min_likes = Some ''+1'', author = None\<rparr>"

text \<open>
  A registration that reuses the username of alice, and the registration of a new
  user, dave, with the row that it stores.
\<close>

definition dave_registration :: register_request where
  "dave_registration =
     \<lparr>content_type = ''application/json'',
      data = [(''username'', ''dave''), (''name'', ''Dave''), (''email'', ''dave@example.com''),
              (''password'', ''secret123'')]\<rparr>"

definition dave :: User where
  "dave = \<lparr>User.user_id = 4, username = ''dave'', name = ''Dave'',
           email = ''dave@example.com'', password_hash = sample_hash ''secret123'',
           created_at = stamp 2024 2 1 0 0\<rparr>"

definition sample_db_with_dave :: db where
  "sample_db_with_dave = sample_db\<lparr>Users := Users sample_db @ [dave], next_user_id := 5\<rparr>"

definition duplicate_registration :: register_request where
  "duplicate_registration =
     \<lparr>content_type = ''application/json'',
      data = [(''username'', ''alice''), (''name'', ''Al''), (''email'', ''al@example.com''),
              (''password'', ''secret123'')]\<rparr>"

section \<open>Like and follow toggles: properties\<close>

lemma first_eq_None [simp]: "(first xs = None) = (xs = [])"
  by (cases xs) (simp_all add: first_def)

lemma first_eq_Some: "first xs = Some x \<Longrightarrow> \<exists>ys. xs = x # ys"
  by (cases xs) (simp_all add: first_def)

lemma find_None_image: "(find (\<lambda>x. f x = k) xs = None) = (k \<notin> f ` set xs)"
  by (auto simp: find_None_iff)

lemma Post_query_get_None: "(Post_query_get st pid = None) = (pid \<notin> Post.post_id ` set (Posts st))"
  by (simp add: Post_query_get_def find_None_image)

lemma User_query_get_None: "(User_query_get st uid = None) = (uid \<notin> User.user_id ` set (Users st))"
  by (simp add: User_query_get_def find_None_image)

text \<open>The three outcomes of one like toggle on an existing post.\<close>

lemma toggle_like_insert:
  assumes "pid \<in> Post.post_id ` set (Posts st)" "uid \<in> User.user_id ` set (Users st)"
    and "Like_filter_by st pid uid = []"
  shows "toggle_like now st uid pid =
    (st\<lparr>Likes := Likes st @ [\<lparr>like_id = next_like_id st, post_id = pid, user_id = uid, created_at = now\<rparr>],
        next_like_id := Suc (next_like_id st)\<rparr>,
     (JObj [(''message'', JStr ''Post liked successfully''), (''liked'', JBool True)], 201))"
proof -
  from assms(1) obtain post where "Post_query_get st pid = Some post"
    using Post_query_get_None [of st pid] by (cases "Post_query_get st pid") auto
  moreover from assms(2) obtain u where "User_query_get st uid = Some u"
    using User_query_get_None [of st uid] by (cases "User_query_get st uid") auto
  ultimately show ?thesis
    using assms(3) by (simp add: toggle_like_def add_like_def first_def)
qed

lemma toggle_like_delete:
  assumes "pid \<in> Post.post_id ` set (Posts st)"
    and "Like_filter_by st pid uid = e # es"
  shows "toggle_like now st uid pid =
    (delete_like st e,
     (JObj [(''message'', JStr ''Post unliked successfully''), (''liked'', JBool False)], 200))"
proof -
  from assms(1) obtain post where "Post_query_get st pid = Some post"
    using Post_query_get_None [of st pid] by (cases "Post_query_get st pid") auto
  then show ?thesis
    using assms(2) by (simp add: toggle_like_def first_def)
qed

lemma toggle_like_tables:
  "Posts (fst (toggle_like now st uid pid)) = Posts st \<and>
   Users (fst (toggle_like now st uid pid)) = Users st"
  by (simp add: toggle_like_def add_like_def delete_like_def split: option.splits)

lemma Like_filter_by_delete_single:
  assumes "Like_filter_by st pid uid = [e]"
  shows "Like_filter_by (delete_like st e) pid uid = []"
proof -
  have "filter (\<lambda>l. like_id l \<noteq> like_id e) (Like_filter_by st pid uid) = []"
    by (simp add: assms)
  then show ?thesis
    by (simp add: Like_filter_by_def delete_like_def conj_commute)
qed

lemma filter_pair_length:
  "distinct (map f xs) \<Longrightarrow> length (filter (\<lambda>x. f x = k) xs) \<le> 1"
  by (induction xs) (auto simp: filter_empty_conv image_iff)

lemma one_like_per_pair_length:
  "one_like_per_pair st \<Longrightarrow> length (Like_filter_by st pid uid) \<le> 1"
proof -
  assume "one_like_per_pair st"
  then have "length (filter (\<lambda>l. (Like.post_id l, Like.user_id l) = (pid, uid)) (Likes st)) \<le> 1"
    unfolding one_like_per_pair_def by (rule filter_pair_length)
  then show ?thesis by (simp add: Like_filter_by_def)
qed

lemma toggle_like_unique:
  assumes "one_like_per_pair st"
  shows "one_like_per_pair (fst (toggle_like now st uid pid))"
proof -
  let ?key = "\<lambda>l. (Like.post_id l, Like.user_id l)"
  have del: "one_like_per_pair (delete_like st e)" for e
    using assms by (simp add: one_like_per_pair_def delete_like_def distinct_map_filter)
  have add: "one_like_per_pair st'"
    if "Like_filter_by st pid uid = []" and "add_like now st pid uid = Some st'" for st'
  proof -
    from that(1) have "(pid, uid) \<notin> ?key ` set (Likes st)"
      by (auto simp: Like_filter_by_def filter_empty_conv)
    with assms that(2) show ?thesis
      by (auto simp: one_like_per_pair_def add_like_def split: if_splits)
  qed
  show ?thesis
    using assms del add
    by (auto simp: toggle_like_def split: option.splits)
qed

lemma run_toggles_unique:
  "one_like_per_pair st \<Longrightarrow> one_like_per_pair (run_toggles st reqs)"
  unfolding run_toggles_def
  by (induction reqs arbitrary: st) (auto simp: toggle_like_unique)

text \<open>
  Claim C2. A state with at most one Like row for each (post, user) pair keeps that
  property under every sequence of like-toggle requests applied one at a time: after
  the sequence no pair has more than one row.
\<close>

theorem toggle_like_keeps_one_per_pair:
  assumes "one_like_per_pair st"
  shows "one_like_per_pair (run_toggles st reqs) \<and>
         (\<forall>pid uid. length (Like_filter_by (run_toggles st reqs) pid uid) \<le> 1)"
  using assms run_toggles_unique one_like_per_pair_length by blast

lemma toggle_like_flip:
  assumes post: "pid \<in> Post.post_id ` set (Posts st)"
    and user: "uid \<in> User.user_id ` set (Users st)"
    and le: "length (Like_filter_by st pid uid) \<le> 1"
  shows "length (Like_filter_by (fst (toggle_like now st uid pid)) pid uid)
           = 1 - length (Like_filter_by st pid uid)"
proof (cases "Like_filter_by st pid uid")
  case Nil
  then show ?thesis
    using toggle_like_insert [OF post user Nil, of now] by (simp add: Like_filter_by_def)
next
  case (Cons e es)
  with le have single: "Like_filter_by st pid uid = [e]" by simp
  show ?thesis
    using toggle_like_delete [OF post single, of now] Like_filter_by_delete_single [OF single]
    by (simp add: single)
qed

lemma run_same_toggles_parity:
  assumes "pid \<in> Post.post_id ` set (Posts st)" "uid \<in> User.user_id ` set (Users st)"
    and "length (Like_filter_by st pid uid) \<le> 1"
  shows "length (Like_filter_by (run_toggles st (map (\<lambda>t. (t, uid, pid)) ts)) pid uid)
           = (if even (length ts) then length (Like_filter_by st pid uid)
              else 1 - length (Like_filter_by st pid uid))"
  using assms
proof (induction ts arbitrary: st)
  case Nil
  then show ?case by (simp add: run_toggles_def)
next
  case (Cons t ts)
  let ?st = "fst (toggle_like t st uid pid)"
  have flip: "length (Like_filter_by ?st pid uid) = 1 - length (Like_filter_by st pid uid)"
    using Cons.prems by (rule toggle_like_flip)
  have "pid \<in> Post.post_id ` set (Posts ?st)" "uid \<in> User.user_id ` set (Users ?st)"
    using Cons.prems toggle_like_tables [of t st uid pid] by simp_all
  moreover have "length (Like_filter_by ?st pid uid) \<le> 1"
    using flip by simp
  ultimately have "length (Like_filter_by (run_toggles ?st (map (\<lambda>t. (t, uid, pid)) ts)) pid uid)
           = (if even (length ts) then length (Like_filter_by ?st pid uid)
              else 1 - length (Like_filter_by ?st pid uid))"
    by (rule Cons.IH)
  moreover have "run_toggles st (map (\<lambda>t. (t, uid, pid)) (t # ts))
                 = run_toggles ?st (map (\<lambda>t. (t, uid, pid)) ts)"
    by (simp add: run_toggles_def)
  ultimately show ?case
    using flip Cons.prems(3) by simp
qed

lemma delete_fresh_like:
  assumes "like_ids_fresh st"
  shows "filter (\<lambda>l. like_id l \<noteq> next_like_id st)
           (Likes st @ [\<lparr>like_id = next_like_id st, post_id = pid, user_id = uid, created_at = now\<rparr>])
         = Likes st"
proof -
  have "\<forall>l \<in> set (Likes st). like_id l \<noteq> next_like_id st"
    using assms by (auto simp: like_ids_fresh_def list_all_iff)
  then show ?thesis by simp
qed

text \<open>
  Claim C1. On an existing post, for a registered user who has no Like row for it:
  one toggle appends exactly one Like row for the pair and reports \<open>liked = true\<close>; a
  second toggle reports \<open>liked = false\<close> and leaves no row for the pair (the table is
  the original one when the stored identifiers are below the counter); and after any
  number of consecutive toggles the row is present exactly when the number is odd.
\<close>

theorem toggle_like_parity:
  assumes post: "pid \<in> Post.post_id ` set (Posts st)"
    and user: "uid \<in> User.user_id ` set (Users st)"
    and none: "Like_filter_by st pid uid = []"
  shows "snd (toggle_like t1 st uid pid) =
           (JObj [(''message'', JStr ''Post liked successfully''), (''liked'', JBool True)], 201)
       \<and> Likes (fst (toggle_like t1 st uid pid)) =
           Likes st @ [\<lparr>like_id = next_like_id st, post_id = pid, user_id = uid, created_at = t1\<rparr>]
       \<and> snd (toggle_like t2 (fst (toggle_like t1 st uid pid)) uid pid) =
           (JObj [(''message'', JStr ''Post unliked successfully''), (''liked'', JBool False)], 200)
       \<and> Like_filter_by (fst (toggle_like t2 (fst (toggle_like t1 st uid pid)) uid pid)) pid uid = []
       \<and> (like_ids_fresh st \<longrightarrow>
            Likes (fst (toggle_like t2 (fst (toggle_like t1 st uid pid)) uid pid)) = Likes st)
       \<and> (\<forall>ts. (Like_filter_by (run_toggles st (map (\<lambda>t. (t, uid, pid)) ts)) pid uid \<noteq> [])
                = odd (length ts))"
proof -
  let ?new = "\<lparr>like_id = next_like_id st, post_id = pid, user_id = uid, created_at = t1\<rparr>"
  let ?st1 = "st\<lparr>Likes := Likes st @ [?new], next_like_id := Suc (next_like_id st)\<rparr>"
  have one: "toggle_like t1 st uid pid =
      (?st1, (JObj [(''message'', JStr ''Post liked successfully''), (''liked'', JBool True)], 201))"
    using post user none by (rule toggle_like_insert)
  have row: "Like_filter_by ?st1 pid uid = [?new]"
    using none by (simp add: Like_filter_by_def)
  have "pid \<in> Post.post_id ` set (Posts ?st1)"
    using post by simp
  then have two: "toggle_like t2 ?st1 uid pid =
      (delete_like ?st1 ?new,
       (JObj [(''message'', JStr ''Post unliked successfully''), (''liked'', JBool False)], 200))"
    using row by (rule toggle_like_delete)
  have gone: "Like_filter_by (delete_like ?st1 ?new) pid uid = []"
    using row by (rule Like_filter_by_delete_single)
  have restored: "Likes (delete_like ?st1 ?new) = Likes st" if "like_ids_fresh st"
    using delete_fresh_like [OF that, of pid uid t1] by (simp add: delete_like_def)
  have par: "(Like_filter_by (run_toggles st (map (\<lambda>t. (t, uid, pid)) ts)) pid uid \<noteq> [])
                = odd (length ts)" for ts
  proof -
    have "length (Like_filter_by (run_toggles st (map (\<lambda>t. (t, uid, pid)) ts)) pid uid)
            = (if even (length ts) then 0 else 1)"
      using run_same_toggles_parity [OF post user, of ts] none by simp
    then show ?thesis
      by (cases "Like_filter_by (run_toggles st (map (\<lambda>t. (t, uid, pid)) ts)) pid uid")
         (simp_all split: if_splits)
  qed
  show ?thesis
    using one two gone restored par by simp
qed

lemmas sample_defs = sample_db_def alice_def bob_def carol_def post1_def post2_def post3_def
  comment1_def like1_def like2_def stamp_def

theorem toggle_like_parity_witness:
  "1 \<in> Post.post_id ` set (Posts sample_db) \<and> 1 \<in> User.user_id ` set (Users sample_db)
   \<and> Like_filter_by sample_db 1 1 = []
   \<and> snd (toggle_like (stamp 2024 2 1 0 0) sample_db 1 1) =
        (JObj [(''message'', JStr ''Post liked successfully''), (''liked'', JBool True)], 201)
   \<and> (Like_filter_by (run_toggles sample_db
          (map (\<lambda>t. (t, 1, 1)) [stamp 2024 2 1 0 0, stamp 2024 2 1 0 1, stamp 2024 2 1 0 2])) 1 1 \<noteq> [])"
proof -
  have a: "1 \<in> Post.post_id ` set (Posts sample_db)" by (simp add: sample_defs)
  have b: "1 \<in> User.user_id ` set (Users sample_db)" by (simp add: sample_defs)
  have c: "Like_filter_by sample_db 1 1 = []" by (simp add: Like_filter_by_def sample_defs)
  note th = toggle_like_parity [OF a b c, of "stamp 2024 2 1 0 0" "stamp 2024 2 1 0 1"]
  from th have
    "(Like_filter_by (run_toggles sample_db
        (map (\<lambda>t. (t, 1, 1)) [stamp 2024 2 1 0 0, stamp 2024 2 1 0 1, stamp 2024 2 1 0 2])) 1 1 \<noteq> [])
     = odd (length [stamp 2024 2 1 0 0, stamp 2024 2 1 0 1, stamp 2024 2 1 0 2])"
    by blast
  then have "Like_filter_by (run_toggles sample_db
        (map (\<lambda>t. (t, 1, 1)) [stamp 2024 2 1 0 0, stamp 2024 2 1 0 1, stamp 2024 2 1 0 2])) 1 1 \<noteq> []"
    by simp
  with a b c th show ?thesis by blast
qed

theorem toggle_like_keeps_one_per_pair_witness:
  "one_like_per_pair sample_db \<and>
   one_like_per_pair (run_toggles sample_db [(stamp 2024 2 1 0 0, 1, 1), (stamp 2024 2 1 0 1, 2, 1)])"
proof -
  have a: "one_like_per_pair sample_db" by (simp add: one_like_per_pair_def sample_defs)
  show ?thesis
    using a toggle_like_keeps_one_per_pair [OF a] by simp
qed

text \<open>
  Claim C9. A like toggle on a post id that no Post row has answers 404 with the body
  \<open>{"error": "Post not found"}\<close> and leaves the state, so the Like table, as it was.
\<close>

theorem toggle_like_post_not_found:
  assumes "pid \<notin> Post.post_id ` set (Posts st)"
  shows "toggle_like now st uid pid = (st, (JObj [(''error'', JStr ''Post not found'')], 404))
       \<and> status (snd (toggle_like now st uid pid)) = 404
       \<and> Likes (fst (toggle_like now st uid pid)) = Likes st"
proof -
  have "Post_query_get st pid = None"
    using assms by (simp add: Post_query_get_None)
  then show ?thesis
    by (simp add: toggle_like_def status_def)
qed

theorem toggle_like_post_not_found_witness:
  "7 \<notin> Post.post_id ` set (Posts sample_db) \<and>
   toggle_like (stamp 2024 2 1 0 0) sample_db 1 7 =
     (sample_db, (JObj [(''error'', JStr ''Post not found'')], 404))"
proof -
  have a: "7 \<notin> Post.post_id ` set (Posts sample_db)" by (simp add: sample_defs)
  show ?thesis
    using a toggle_like_post_not_found [OF a] by simp
qed

text \<open>
  Claim C7. A follow toggle whose target is the requesting user answers 400 and
  leaves the state, so the Follower table, as it was.
\<close>

theorem toggle_follow_self:
  "toggle_follow now st uid uid = (st, (JObj [(''error'', JStr ''You cannot follow yourself'')], 400))
   \<and> status (snd (toggle_follow now st uid uid)) = 400
   \<and> Followers (fst (toggle_follow now st uid uid)) = Followers st"
  by (simp add: toggle_follow_def status_def)

section \<open>Aggregation queries: properties\<close>

lemma count_distinct_card: "count_distinct xs = card (set xs)"
  by (simp add: count_distinct_def length_remdups_card_conv)

lemma count_distinct_distinct: "distinct xs \<Longrightarrow> count_distinct xs = length xs"
  by (simp add: count_distinct_def)

lemma set_order_by_desc [simp]: "set (order_by_desc f xs) = set xs"
  by (simp add: order_by_desc_def)

lemma length_order_by_desc [simp]: "length (order_by_desc f xs) = length xs"
  by (simp add: order_by_desc_def)

lemma sorted_order_by_desc: "sorted_wrt (\<lambda>a b. f b \<le> f a) (order_by_desc f xs)"
proof -
  have "sorted (map f (sort_key f xs))" by simp
  then have "sorted_wrt (\<lambda>a b. f a \<le> f b) (sort_key f xs)"
    by (simp add: sorted_map)
  then show ?thesis
    by (simp add: order_by_desc_def sorted_wrt_rev)
qed

lemma sorted_wrt_take: "sorted_wrt P xs \<Longrightarrow> sorted_wrt P (take n xs)"
  by (metis append_take_drop_id sorted_wrt_append)

lemma distinct_map_insort_key:
  "distinct (map f (insort_key f x xs)) = (f x \<notin> f ` set xs \<and> distinct (map f xs))"
  by (induction xs) (auto simp: set_insort_key)

lemma distinct_map_sort_key: "distinct (map f (sort_key f xs)) = distinct (map f xs)"
  by (induction xs) (simp_all add: distinct_map_insort_key)

lemma strict_order_by_desc:
  assumes "distinct (map f xs)"
  shows "sorted_wrt (\<lambda>a b. f b < f a) (order_by_desc f xs)"
proof -
  have "sorted (map f (sort_key f xs)) \<and> distinct (map f (sort_key f xs))"
    using assms by (simp add: distinct_map_sort_key)
  then have "sorted_wrt (<) (map f (sort_key f xs))"
    by (simp add: strict_sorted_iff)
  then have "sorted_wrt (\<lambda>a b. f a < f b) (sort_key f xs)"
    by (simp add: sorted_wrt_map)
  then show ?thesis
    by (simp add: order_by_desc_def sorted_wrt_rev)
qed

text \<open>
  Claim C5. For a user without posts the statistics endpoint answers 200, with every
  total 0 and with \<open>average_likes_per_post\<close> and \<open>average_comments_per_post\<close>
  both 0: the zero divisor is turned into NULL and NULL into 0, no error is raised.
\<close>

theorem stats_zero_posts:
  assumes "user_posts st uid = []"
  shows "get_post_stats st uid =
           (JObj [(''total_posts'', JInt 0), (''total_likes'', JInt 0),
                  (''total_comments'', JInt 0),
                  (''average_likes_per_post'', JNum 0),
                  (''average_comments_per_post'', JNum 0)], 200)"
  using assms
  by (simp add: get_post_stats_def count_distinct_def nullif_def sql_div_def or_zero_def)

theorem stats_zero_posts_witness:
  "user_posts sample_db 3 = [] \<and>
   status (get_post_stats sample_db 3) = 200 \<and>
   jget ''average_likes_per_post'' (body (get_post_stats sample_db 3)) = Some (JNum 0)"
proof -
  have a: "user_posts sample_db 3 = []" by (simp add: user_posts_def sample_defs)
  show ?thesis
    using a stats_zero_posts [OF a] by (simp add: status_def body_def jget_def)
qed

lemma likes_count_card:
  "likes_count st pid = card {like_id l | l. l \<in> set (Likes st) \<and> Like.post_id l = pid}"
proof -
  have "set (map like_id (filter (\<lambda>l. Like.post_id l = pid) (Likes st)))
        = {like_id l | l. l \<in> set (Likes st) \<and> Like.post_id l = pid}"
    by auto
  then show ?thesis
    by (simp add: likes_count_def count_distinct_card del: set_map set_filter)
qed

lemma comments_count_card:
  "comments_count st pid =
     card {comment_id c | c. c \<in> set (Comments st) \<and> Comment.post_id c = pid}"
proof -
  have "set (map comment_id (filter (\<lambda>c. Comment.post_id c = pid) (Comments st)))
        = {comment_id c | c. c \<in> set (Comments st) \<and> Comment.post_id c = pid}"
    by auto
  then show ?thesis
    by (simp add: comments_count_def count_distinct_card del: set_map set_filter)
qed

lemma likes_count_rows:
  assumes "distinct (map like_id (Likes st))"
  shows "likes_count st pid = length (filter (\<lambda>l. Like.post_id l = pid) (Likes st))"
  using assms by (simp add: likes_count_def count_distinct_distinct distinct_map_filter)

lemma comments_count_rows:
  assumes "distinct (map comment_id (Comments st))"
  shows "comments_count st pid = length (filter (\<lambda>c. Comment.post_id c = pid) (Comments st))"
  using assms by (simp add: comments_count_def count_distinct_distinct distinct_map_filter)

lemma counted_posts_row:
  assumes "(p, u, likes, comments) \<in> set (counted_posts st)"
  shows "p \<in> set (Posts st) \<and> u \<in> set (Users st) \<and> User.user_id u = Post.user_id p \<and>
         likes = likes_count st (Post.post_id p) \<and> comments = comments_count st (Post.post_id p)"
  using assms by (auto simp: counted_posts_def)

lemma top_posts_row:
  assumes "(p, u, likes, comments, score) \<in> set (top_posts st)"
  shows "(p, u, likes, comments) \<in> set (counted_posts st) \<and> score = likes + comments"
proof -
  from assms have "(p, u, likes, comments, score)
      \<in> set (map (\<lambda>(p, u, likes, comments). (p, u, likes, comments, likes + comments))
               (counted_posts st))"
    unfolding top_posts_def using in_set_takeD set_order_by_desc by fastforce
  then show ?thesis by auto
qed

lemma top_posts_sorted:
  "sorted_wrt (\<lambda>a b. b \<le> a) (map (\<lambda>(p, u, likes, comments, score). score) (top_posts st))"
proof -
  let ?score = "\<lambda>(p :: Post, u :: User, likes :: nat, comments :: nat, score :: nat). score"
  have "sorted_wrt (\<lambda>a b. ?score b \<le> ?score a) (top_posts st)"
    unfolding top_posts_def by (intro sorted_wrt_take sorted_order_by_desc)
  then show ?thesis by (simp add: sorted_wrt_map)
qed

text \<open>
  Claim C4. The top-posts endpoint answers 200 with the rows of \<open>top_posts\<close> in their
  order. There are at most 10 rows, their engagement scores never increase from one
  row to the next, and the score of every row is the like count plus the comment
  count of its post, where the counts are the numbers of distinct like and comment
  identifiers of that post (the numbers of its Like and Comment rows when the
  identifiers are unique).
\<close>

theorem top_posts_ranked:
  "get_top_posts st = (JObj [(''top_posts'', JList (map top_post_json (top_posts st)))], 200)
   \<and> length (top_posts st) \<le> 10
   \<and> sorted_wrt (\<lambda>a b. b \<le> a) (map (\<lambda>(p, u, likes, comments, score). score) (top_posts st))
   \<and> (\<forall>(p, u, likes, comments, score) \<in> set (top_posts st).
        p \<in> set (Posts st)
      \<and> score = likes + comments
      \<and> likes = card {like_id l | l. l \<in> set (Likes st) \<and> Like.post_id l = Post.post_id p}
      \<and> comments = card {comment_id c | c. c \<in> set (Comments st) \<and>
                                             Comment.post_id c = Post.post_id p}
      \<and> (distinct (map like_id (Likes st)) \<longrightarrow>
           likes = length (filter (\<lambda>l. Like.post_id l = Post.post_id p) (Likes st)))
      \<and> (distinct (map comment_id (Comments st)) \<longrightarrow>
           comments = length (filter (\<lambda>c. Comment.post_id c = Post.post_id p) (Comments st)))
      \<and> jget ''engagement_score'' (top_post_json (p, u, likes, comments, score))
          = Some (JInt (int likes + int comments)))"
proof -
  have resp: "get_top_posts st =
      (JObj [(''top_posts'', JList (map top_post_json (top_posts st)))], 200)"
    by (simp add: get_top_posts_def)
  have len: "length (top_posts st) \<le> 10"
    by (simp add: top_posts_def)
  have rows: "p \<in> set (Posts st)
      \<and> score = likes + comments
      \<and> likes = card {like_id l | l. l \<in> set (Likes st) \<and> Like.post_id l = Post.post_id p}
      \<and> comments = card {comment_id c | c. c \<in> set (Comments st) \<and>
                                             Comment.post_id c = Post.post_id p}
      \<and> (distinct (map like_id (Likes st)) \<longrightarrow>
           likes = length (filter (\<lambda>l. Like.post_id l = Post.post_id p) (Likes st)))
      \<and> (distinct (map comment_id (Comments st)) \<longrightarrow>
           comments = length (filter (\<lambda>c. Comment.post_id c = Post.post_id p) (Comments st)))
      \<and> jget ''engagement_score'' (top_post_json (p, u, likes, comments, score))
          = Some (JInt (int likes + int comments))"
    if "(p, u, likes, comments, score) \<in> set (top_posts st)" for p u likes comments score
  proof -
    from that have c: "(p, u, likes, comments) \<in> set (counted_posts st)"
      and s: "score = likes + comments"
      using top_posts_row by blast+
    from c have p: "p \<in> set (Posts st)"
      and l: "likes = likes_count st (Post.post_id p)"
      and k: "comments = comments_count st (Post.post_id p)"
      using counted_posts_row by blast+
    have j: "jget ''engagement_score'' (top_post_json (p, u, likes, comments, score))
          = Some (JInt (int likes + int comments))"
      by (simp add: jget_def top_post_json_def s)
    show ?thesis
      using p s j l k likes_count_card [of st "Post.post_id p"]
        comments_count_card [of st "Post.post_id p"]
        likes_count_rows [of st "Post.post_id p"] comments_count_rows [of st "Post.post_id p"]
      by simp
  qed
  show ?thesis
    using resp len top_posts_sorted [of st] rows by blast
qed

lemma top_posts_sample:
  "top_posts sample_db = [(post1, alice, 1, 1, 2), (post2, alice, 1, 0, 1), (post3, bob, 0, 0, 0)]"
  by (simp add: top_posts_def order_by_desc_def counted_posts_def likes_count_def
      comments_count_def count_distinct_def sample_defs)

theorem top_posts_ranked_witness:
  "(post1, alice, 1, 1, 2) \<in> set (top_posts sample_db)
   \<and> distinct (map like_id (Likes sample_db))
   \<and> distinct (map comment_id (Comments sample_db))
   \<and> (2 :: nat) = 1 + 1
   \<and> 1 = length (filter (\<lambda>l. Like.post_id l = Post.post_id post1) (Likes sample_db))
   \<and> 1 = length (filter (\<lambda>c. Comment.post_id c = Post.post_id post1) (Comments sample_db))
   \<and> jget ''engagement_score'' (top_post_json (post1, alice, 1, 1, 2)) = Some (JInt 2)"
proof -
  have m: "(post1, alice, 1, 1, 2) \<in> set (top_posts sample_db)"
    by (simp add: top_posts_sample)
  have d: "distinct (map like_id (Likes sample_db))"
    "distinct (map comment_id (Comments sample_db))"
    by (simp_all add: sample_defs)
  from top_posts_ranked [of sample_db] m
  have h: "(2 :: nat) = 1 + 1
      \<and> (distinct (map like_id (Likes sample_db)) \<longrightarrow>
           1 = length (filter (\<lambda>l. Like.post_id l = Post.post_id post1) (Likes sample_db)))
      \<and> (distinct (map comment_id (Comments sample_db)) \<longrightarrow>
           1 = length (filter (\<lambda>c. Comment.post_id c = Post.post_id post1) (Comments sample_db)))
      \<and> jget ''engagement_score'' (top_post_json (post1, alice, 1, 1, 2))
          = Some (JInt (int 1 + int 1))"
    by fast
  then have j: "jget ''engagement_score'' (top_post_json (post1, alice, 1, 1, 2)) = Some (JInt 2)"
    by simp
  from h d m j show ?thesis by blast
qed

lemma engagement_row_fst [simp]: "fst (engagement_row st uid d) = d"
  by (simp add: engagement_row_def Let_def)

lemma engagement_row_counts:
  "engagement_row st uid d =
     (d,
      card {Post.post_id p | p. p \<in> set (Posts st) \<and> Post.user_id p = uid \<and>
                               date_of (Post.created_at p) = d},
      card {like_id l | l. l \<in> set (Likes st) \<and>
              (\<exists>p \<in> set (Posts st). Post.user_id p = uid \<and>
                 date_of (Post.created_at p) = d \<and> Like.post_id l = Post.post_id p)},
      card {comment_id c | c. c \<in> set (Comments st) \<and>
              (\<exists>p \<in> set (Posts st). Post.user_id p = uid \<and>
                 date_of (Post.created_at p) = d \<and> Comment.post_id c = Post.post_id p)})"
proof -
  let ?ps = "filter (\<lambda>p. date_of (Post.created_at p) = d) (user_posts st uid)"
  let ?pids = "map Post.post_id ?ps"
  have a: "set ?pids = {Post.post_id p | p. p \<in> set (Posts st) \<and> Post.user_id p = uid \<and>
                               date_of (Post.created_at p) = d}"
    by (auto simp: user_posts_def)
  have b: "set (map like_id (filter (\<lambda>l. Like.post_id l \<in>
        {Post.post_id p | p. p \<in> set (Posts st) \<and> Post.user_id p = uid \<and>
                               date_of (Post.created_at p) = d}) (Likes st)))
      = {like_id l | l. l \<in> set (Likes st) \<and>
              (\<exists>p \<in> set (Posts st). Post.user_id p = uid \<and>
                 date_of (Post.created_at p) = d \<and> Like.post_id l = Post.post_id p)}"
    by auto
  have c: "set (map comment_id (filter (\<lambda>c. Comment.post_id c \<in>
        {Post.post_id p | p. p \<in> set (Posts st) \<and> Post.user_id p = uid \<and>
                               date_of (Post.created_at p) = d}) (Comments st)))
      = {comment_id c | c. c \<in> set (Comments st) \<and>
              (\<exists>p \<in> set (Posts st). Post.user_id p = uid \<and>
                 date_of (Post.created_at p) = d \<and> Comment.post_id c = Post.post_id p)}"
    by auto
  have "engagement_row st uid d =
      (d, card (set ?pids),
       card (set (map like_id (filter (\<lambda>l. Like.post_id l \<in> set ?pids) (Likes st)))),
       card (set (map comment_id (filter (\<lambda>c. Comment.post_id c \<in> set ?pids) (Comments st)))))"
    by (simp add: engagement_row_def Let_def count_distinct_card del: set_map set_filter)
  then show ?thesis
    by (simp only: a b c)
qed

lemma engagement_data_member:
  assumes "row \<in> set (engagement_data st uid)"
  shows "\<exists>d. row = engagement_row st uid d \<and>
             (\<exists>p \<in> set (Posts st). Post.user_id p = uid \<and> date_of (Post.created_at p) = d)"
proof -
  from assms have "row \<in> set (map (engagement_row st uid)
      (remdups (map (\<lambda>p. date_of (Post.created_at p)) (user_posts st uid))))"
    unfolding engagement_data_def using in_set_takeD set_order_by_desc by fastforce
  then obtain d where r: "row = engagement_row st uid d"
    and d: "d \<in> set (map (\<lambda>p. date_of (Post.created_at p)) (user_posts st uid))"
    by (auto simp del: split_paired_Ex split_paired_All)
  from d obtain p where "p \<in> set (Posts st)" "Post.user_id p = uid"
    "date_of (Post.created_at p) = d"
    by (auto simp: user_posts_def simp del: split_paired_Ex split_paired_All)
  with r show ?thesis by blast
qed

lemma engagement_data_sorted:
  "sorted_wrt (\<lambda>a b. fst b < fst a) (engagement_data st uid)"
proof -
  let ?dates = "remdups (map (\<lambda>p. date_of (Post.created_at p)) (user_posts st uid))"
  have "map fst (map (engagement_row st uid) ?dates) = ?dates"
    by (simp add: comp_def)
  then have "distinct (map fst (map (engagement_row st uid) ?dates))"
    by (simp only: distinct_remdups)
  then have "sorted_wrt (\<lambda>a b. fst b < fst a)
      (order_by_desc fst (map (engagement_row st uid) ?dates))"
    by (rule strict_order_by_desc)
  then show ?thesis
    unfolding engagement_data_def by (rule sorted_wrt_take)
qed

text \<open>
  Claim C8. The engagement-by-date endpoint answers 200 with the rows of
  \<open>engagement_data\<close> in their order. There are at most 30 rows, their dates strictly
  decrease, and every row belongs to the creation date of some post of the requesting
  user and counts the distinct posts of that user on that date, the distinct likes on
  those posts and the distinct comments on those posts. The JSON object of a row
  carries that date in ISO form under \<open>date\<close> and the three counts under
  \<open>posts_count\<close>, \<open>likes_count\<close> and \<open>comments_count\<close>.
\<close>

theorem engagement_by_date_rows:
  "get_engagement_by_date st uid =
     (JObj [(''engagement_by_date'', JList (map engagement_json (engagement_data st uid)))], 200)
   \<and> length (engagement_data st uid) \<le> 30
   \<and> sorted_wrt (\<lambda>a b. fst b < fst a) (engagement_data st uid)
   \<and> (\<forall>(d, posts_count, likes, comments) \<in> set (engagement_data st uid).
        (\<exists>p \<in> set (Posts st). Post.user_id p = uid \<and> date_of (Post.created_at p) = d)
      \<and> posts_count =
          card {Post.post_id p | p. p \<in> set (Posts st) \<and> Post.user_id p = uid \<and>
                                   date_of (Post.created_at p) = d}
      \<and> likes =
          card {like_id l | l. l \<in> set (Likes st) \<and>
                  (\<exists>p \<in> set (Posts st). Post.user_id p = uid \<and>
                     date_of (Post.created_at p) = d \<and> Like.post_id l = Post.post_id p)}
      \<and> comments =
          card {comment_id c | c. c \<in> set (Comments st) \<and>
                  (\<exists>p \<in> set (Posts st). Post.user_id p = uid \<and>
                     date_of (Post.created_at p) = d \<and> Comment.post_id c = Post.post_id p)}
      \<and> jget ''date'' (engagement_json (d, posts_count, likes, comments))
          = Some (JStr (date_isoformat d))
      \<and> jget ''posts_count'' (engagement_json (d, posts_count, likes, comments))
          = Some (JInt (int posts_count))
      \<and> jget ''likes_count'' (engagement_json (d, posts_count, likes, comments))
          = Some (JInt (int likes))
      \<and> jget ''comments_count'' (engagement_json (d, posts_count, likes, comments))
          = Some (JInt (int comments)))"
proof -
  have resp: "get_engagement_by_date st uid =
     (JObj [(''engagement_by_date'', JList (map engagement_json (engagement_data st uid)))], 200)"
    by (simp add: get_engagement_by_date_def)
  have len: "length (engagement_data st uid) \<le> 30"
    by (simp add: engagement_data_def)
  have rows: "(\<exists>p \<in> set (Posts st). Post.user_id p = uid \<and> date_of (Post.created_at p) = d)
      \<and> posts_count =
          card {Post.post_id p | p. p \<in> set (Posts st) \<and> Post.user_id p = uid \<and>
                                   date_of (Post.created_at p) = d}
      \<and> likes =
          card {like_id l | l. l \<in> set (Likes st) \<and>
                  (\<exists>p \<in> set (Posts st). Post.user_id p = uid \<and>
                     date_of (Post.created_at p) = d \<and> Like.post_id l = Post.post_id p)}
      \<and> comments =
          card {comment_id c | c. c \<in> set (Comments st) \<and>
                  (\<exists>p \<in> set (Posts st). Post.user_id p = uid \<and>
                     date_of (Post.created_at p) = d \<and> Comment.post_id c = Post.post_id p)}
      \<and> jget ''date'' (engagement_json (d, posts_count, likes, comments))
          = Some (JStr (date_isoformat d))
      \<and> jget ''posts_count'' (engagement_json (d, posts_count, likes, comments))
          = Some (JInt (int posts_count))
      \<and> jget ''likes_count'' (engagement_json (d, posts_count, likes, comments))
          = Some (JInt (int likes))
      \<and> jget ''comments_count'' (engagement_json (d, posts_count, likes, comments))
          = Some (JInt (int comments))"
    if "(d, posts_count, likes, comments) \<in> set (engagement_data st uid)"
    for d posts_count likes comments
  proof -
    from engagement_data_member [OF that] obtain d' where
      r: "(d, posts_count, likes, comments) = engagement_row st uid d'" and
      p: "\<exists>p \<in> set (Posts st). Post.user_id p = uid \<and> date_of (Post.created_at p) = d'"
      by blast
    from r have "d' = d"
      by (metis engagement_row_fst fst_conv)
    with r p show ?thesis
      using engagement_row_counts [of st uid d]
      by (simp add: jget_def engagement_json_def)
  qed
  show ?thesis
    using resp len engagement_data_sorted [of st uid] rows by blast
qed

lemma engagement_data_sample:
  "engagement_data sample_db 1 = [((2024, 1, 10), 2, 2, 1)]"
  by (simp add: engagement_data_def order_by_desc_def engagement_row_def user_posts_def
      count_distinct_def date_of_def sample_defs)

lemma date_isoformat_sample: "date_isoformat (2024, 1, 10) = ''2024-01-10''"
  by code_simp

theorem engagement_by_date_rows_witness:
  "((2024, 1, 10), 2, 2, 1) \<in> set (engagement_data sample_db 1)
   \<and> get_engagement_by_date sample_db 1 =
       (JObj [(''engagement_by_date'',
               JList [JObj [(''date'', JStr ''2024-01-10''), (''posts_count'', JInt 2),
                            (''likes_count'', JInt 2), (''comments_count'', JInt 1)]])], 200)
   \<and> jget ''date'' (engagement_json ((2024, 1, 10), 2, 2, 1)) = Some (JStr ''2024-01-10'')
   \<and> jget ''posts_count'' (engagement_json ((2024, 1, 10), 2, 2, 1)) = Some (JInt 2)
   \<and> jget ''likes_count'' (engagement_json ((2024, 1, 10), 2, 2, 1)) = Some (JInt 2)
   \<and> jget ''comments_count'' (engagement_json ((2024, 1, 10), 2, 2, 1)) = Some (JInt 1)
   \<and> (\<exists>p \<in> set (Posts sample_db). Post.user_id p = 1 \<and>
         date_of (Post.created_at p) = (2024, 1, 10))
   \<and> 2 = card {like_id l | l. l \<in> set (Likes sample_db) \<and>
                  (\<exists>p \<in> set (Posts sample_db). Post.user_id p = 1 \<and>
                     date_of (Post.created_at p) = (2024, 1, 10) \<and>
                     Like.post_id l = Post.post_id p)}"
proof -
  have m: "((2024, 1, 10), 2, 2, 1) \<in> set (engagement_data sample_db 1)"
    by (subst engagement_data_sample) simp
  note th = engagement_by_date_rows [of sample_db 1]
  from th m have row:
    "(\<exists>p \<in> set (Posts sample_db). Post.user_id p = 1 \<and>
         date_of (Post.created_at p) = (2024, 1, 10))
     \<and> 2 = card {like_id l | l. l \<in> set (Likes sample_db) \<and>
                  (\<exists>p \<in> set (Posts sample_db). Post.user_id p = 1 \<and>
                     date_of (Post.created_at p) = (2024, 1, 10) \<and>
                     Like.post_id l = Post.post_id p)}
     \<and> jget ''date'' (engagement_json ((2024, 1, 10), 2, 2, 1))
          = Some (JStr (date_isoformat (2024, 1, 10)))
     \<and> jget ''posts_count'' (engagement_json ((2024, 1, 10), 2, 2, 1)) = Some (JInt (int 2))
     \<and> jget ''likes_count'' (engagement_json ((2024, 1, 10), 2, 2, 1)) = Some (JInt (int 2))
     \<and> jget ''comments_count'' (engagement_json ((2024, 1, 10), 2, 2, 1))
          = Some (JInt (int 1))"
    by fast
  from th have "get_engagement_by_date sample_db 1 =
      (JObj [(''engagement_by_date'',
              JList (map engagement_json (engagement_data sample_db 1)))], 200)"
    by (rule conjunct1)
  then have resp: "get_engagement_by_date sample_db 1 =
       (JObj [(''engagement_by_date'',
               JList [JObj [(''date'', JStr ''2024-01-10''), (''posts_count'', JInt 2),
                            (''likes_count'', JInt 2), (''comments_count'', JInt 1)]])], 200)"
    unfolding engagement_data_sample list.map engagement_json_def prod.case
      date_isoformat_sample
    by simp
  from row have j:
    "jget ''date'' (engagement_json ((2024, 1, 10), 2, 2, 1)) = Some (JStr ''2024-01-10'')"
    "jget ''posts_count'' (engagement_json ((2024, 1, 10), 2, 2, 1)) = Some (JInt 2)"
    "jget ''likes_count'' (engagement_json ((2024, 1, 10), 2, 2, 1)) = Some (JInt 2)"
    "jget ''comments_count'' (engagement_json ((2024, 1, 10), 2, 2, 1)) = Some (JInt 1)"
    unfolding date_isoformat_sample by simp_all
  from m resp j row show ?thesis
    by (intro conjI) (assumption | elim conjE)+
qed

section \<open>Discover feed: properties\<close>

lemma collect_Inr_length: "collect rs = Inr xs \<Longrightarrow> length xs = length rs"
  by (induction rs arbitrary: xs rule: collect.induct) (auto split: sum.splits)

lemma collect_map_Inr:
  "(\<And>x. x \<in> set xs \<Longrightarrow> \<exists>y. f x = Inr y) \<Longrightarrow> \<exists>ys. collect (map f xs) = Inr ys"
proof (induction xs)
  case Nil
  then show ?case by simp
next
  case (Cons x xs)
  from Cons.prems obtain y where y: "f x = Inr y" by auto
  from Cons.IH Cons.prems obtain ys where ys: "collect (map f xs) = Inr ys" by auto
  from y ys show ?case by simp
qed

lemma discover_results_Inr:
  assumes "discover_results fromisoformat ilike st args = Inr results"
  shows "\<exists>bound. likes_bound args = Inr bound \<and>
     results = take 20
             (order_by_desc (\<lambda>(p, u, likes, comments). dt_key (Post.created_at p))
                (filter (discover_where fromisoformat ilike args bound) (counted_posts st)))"
proof (cases "likes_bound args")
  case (Inl e)
  with assms show ?thesis by (simp add: discover_results_def)
next
  case (Inr bound)
  with assms show ?thesis by (simp add: discover_results_def)
qed

lemma discover_results_row:
  assumes "discover_results fromisoformat ilike st args = Inr results"
    and "row \<in> set results"
  shows "\<exists>bound. likes_bound args = Inr bound \<and> row \<in> set (counted_posts st) \<and>
           discover_where fromisoformat ilike args bound row"
proof -
  from discover_results_Inr [OF assms(1)] obtain bound where b: "likes_bound args = Inr bound"
    and r: "results = take 20
             (order_by_desc (\<lambda>(p, u, likes, comments). dt_key (Post.created_at p))
                (filter (discover_where fromisoformat ilike args bound) (counted_posts st)))"
    by blast
  from assms(2) have "row \<in> set (order_by_desc (\<lambda>(p, u, likes, comments). dt_key (Post.created_at p))
                (filter (discover_where fromisoformat ilike args bound) (counted_posts st)))"
    unfolding r by (rule in_set_takeD)
  then have "row \<in> set (filter (discover_where fromisoformat ilike args bound) (counted_posts st))"
    by (simp only: set_order_by_desc)
  then have "row \<in> set (counted_posts st) \<and> discover_where fromisoformat ilike args bound row"
    by simp
  with b show ?thesis by blast
qed

lemma likes_bound_digits:
  assumes "likes_bound args = Inr bound" "min_likes args = Some s" "isdigit s"
  shows "\<exists>n. py_int s = Inr n \<and> bound = Some n"
proof (cases "py_int s")
  case (Inl e)
  with assms show ?thesis by (simp add: likes_bound_def isdigit_def)
next
  case (Inr n)
  with assms show ?thesis by (simp add: likes_bound_def isdigit_def)
qed

lemma get_discover_posts_200:
  assumes "status (get_discover_posts fromisoformat ilike st uid args) = 200"
  shows "\<exists>results posts_data.
           discover_results fromisoformat ilike st args = Inr results \<and>
           collect (map (discover_post_json st uid) results) = Inr posts_data \<and>
           get_discover_posts fromisoformat ilike st uid args =
             (JObj [(''posts'', JList posts_data)], 200)"
proof (cases "discover_results fromisoformat ilike st args")
  case (Inl e)
  with assms show ?thesis by (simp add: get_discover_posts_def status_def)
next
  case (Inr results)
  show ?thesis
  proof (cases "collect (map (discover_post_json st uid) results)")
    case (Inl e)
    with Inr assms show ?thesis by (simp add: get_discover_posts_def status_def)
  next
    case r: (Inr posts_data)
    with Inr show ?thesis by (simp add: get_discover_posts_def)
  qed
qed

lemma discover_where_from:
  assumes "discover_where fromisoformat ilike args bound (p, u, likes, comments)"
    and "date_from args = Some s" "s \<noteq> []" "fromisoformat s = Some d"
  shows "dt_le (start_of_day d) (Post.created_at p)"
  using assms by (simp add: discover_where_def from_bound_def)

lemma discover_where_to:
  assumes "discover_where fromisoformat ilike args bound (p, u, likes, comments)"
    and "date_to args = Some s" "s \<noteq> []" "fromisoformat s = Some d"
  shows "dt_le (Post.created_at p) (end_of_day d)"
  using assms by (simp add: discover_where_def to_bound_def)

lemma discover_where_likes:
  assumes "discover_where fromisoformat ilike args (Some n) (p, u, likes, comments)"
  shows "n \<le> likes"
  using assms by (simp add: discover_where_def)

text \<open>
  Claim C3, as amended. In every successful discover-feed response the posts are the
  rows of \<open>discover_results\<close>, and every row satisfies each filter that the handler
  could read: when \<open>date_from\<close> is a non-empty string that \<open>fromisoformat\<close> parses, the
  post was created at or after the start of that day; when \<open>date_to\<close> is one, at or
  before the end of that day; when \<open>min_likes\<close> is a string of digits, the like count
  of the post (its number of distinct likes) is at least that number.
\<close>

theorem discover_filters_applied:
  assumes "status (get_discover_posts fromisoformat ilike st uid args) = 200"
  shows "\<exists>results posts_data.
           get_discover_posts fromisoformat ilike st uid args =
             (JObj [(''posts'', JList posts_data)], 200)
         \<and> discover_results fromisoformat ilike st args = Inr results
         \<and> collect (map (discover_post_json st uid) results) = Inr posts_data
         \<and> length posts_data = length results
         \<and> (\<forall>(p, u, likes, comments) \<in> set results.
              p \<in> set (Posts st)
            \<and> likes = likes_count st (Post.post_id p)
            \<and> (\<forall>s d. date_from args = Some s \<and> s \<noteq> [] \<and> fromisoformat s = Some d \<longrightarrow>
                   dt_le (start_of_day d) (Post.created_at p))
            \<and> (\<forall>s d. date_to args = Some s \<and> s \<noteq> [] \<and> fromisoformat s = Some d \<longrightarrow>
                   dt_le (Post.created_at p) (end_of_day d))
            \<and> (\<forall>s. min_likes args = Some s \<and> isdigit s \<longrightarrow>
                   (\<exists>n. py_int s = Inr n \<and> n \<le> likes)))"
proof -
  from get_discover_posts_200 [OF assms] obtain results posts_data where
    res: "discover_results fromisoformat ilike st args = Inr results" and
    col: "collect (map (discover_post_json st uid) results) = Inr posts_data" and
    resp: "get_discover_posts fromisoformat ilike st uid args =
             (JObj [(''posts'', JList posts_data)], 200)"
    by blast
  have len: "length posts_data = length results"
    using collect_Inr_length [OF col] by simp
  have rows: "p \<in> set (Posts st)
            \<and> likes = likes_count st (Post.post_id p)
            \<and> (\<forall>s d. date_from args = Some s \<and> s \<noteq> [] \<and> fromisoformat s = Some d \<longrightarrow>
                   dt_le (start_of_day d) (Post.created_at p))
            \<and> (\<forall>s d. date_to args = Some s \<and> s \<noteq> [] \<and> fromisoformat s = Some d \<longrightarrow>
                   dt_le (Post.created_at p) (end_of_day d))
            \<and> (\<forall>s. min_likes args = Some s \<and> isdigit s \<longrightarrow>
                   (\<exists>n. py_int s = Inr n \<and> n \<le> likes))"
    if "(p, u, likes, comments) \<in> set results" for p u likes comments
  proof -
    from discover_results_row [OF res that] obtain bound where
      b: "likes_bound args = Inr bound" and
      c: "(p, u, likes, comments) \<in> set (counted_posts st)" and
      w: "discover_where fromisoformat ilike args bound (p, u, likes, comments)"
      by blast
    from c have p: "p \<in> set (Posts st)" and l: "likes = likes_count st (Post.post_id p)"
      using counted_posts_row by blast+
    have m: "\<exists>n. py_int s = Inr n \<and> n \<le> likes" if "min_likes args = Some s" "isdigit s" for s
    proof -
      from likes_bound_digits [OF b that] obtain n where "py_int s = Inr n" "bound = Some n"
        by blast
      with w show ?thesis using discover_where_likes by blast
    qed
    show ?thesis
      using p l m discover_where_from [OF w] discover_where_to [OF w] by blast
  qed
  show ?thesis
    using resp res col len rows by blast
qed

lemma parse_jan_1: "fromisoformat_date ''2024-01-01'' = Some (stamp 2024 1 1 0 0)"
  by (simp add: fromisoformat_date_def digits_value_def decimal_char_def days_in_month_def
      leap_year_def stamp_def)

lemma parse_jan_31: "fromisoformat_date ''2024-01-31'' = Some (stamp 2024 1 31 0 0)"
  by (simp add: fromisoformat_date_def digits_value_def decimal_char_def days_in_month_def
      leap_year_def stamp_def)

lemma parse_short_1: "fromisoformat_date ''2024-1-1'' = None"
  by (simp add: fromisoformat_date_def)

lemma parse_short_31: "fromisoformat_date ''2024-1-31'' = None"
  by (simp add: fromisoformat_date_def)

lemma isdigit_1: "isdigit ''1''"
  by (simp add: isdigit_def isdigit_char_def)

lemma isdigit_plus_1: "\<not> isdigit ''+1''"
  by (simp add: isdigit_def isdigit_char_def)

lemma py_int_1: "py_int ''1'' = Inr 1"
  by (simp add: py_int_def decimal_char_def)

lemma counted_posts_sample:
  "counted_posts sample_db = [(post1, alice, 1, 1), (post2, alice, 1, 0), (post3, bob, 0, 0)]"
  by (simp add: counted_posts_def likes_count_def comments_count_def count_distinct_def
      sample_defs)

lemma likes_bound_january: "likes_bound january_args = Inr (Some 1)"
  by (simp add: likes_bound_def january_args_def isdigit_1 py_int_1)

lemma likes_bound_malformed: "likes_bound malformed_args = Inr None"
  by (simp add: likes_bound_def malformed_args_def isdigit_plus_1)

lemma bounds_january:
  "from_bound fromisoformat_date january_args = Some (stamp 2024 1 1 0 0)"
  "to_bound fromisoformat_date january_args =
     Some \<lparr>year = 2024, month = 1, day = 31, hour = 23, minute = 59, second = 59,
           microsecond = 999999\<rparr>"
  by (simp_all add: from_bound_def to_bound_def january_args_def parse_jan_1 parse_jan_31
      start_of_day_def end_of_day_def stamp_def)

lemma bounds_malformed:
  "from_bound fromisoformat_date malformed_args = None"
  "to_bound fromisoformat_date malformed_args = None"
  by (simp_all add: from_bound_def to_bound_def malformed_args_def parse_short_1 parse_short_31)

lemma author_absent: "author january_args = None" "author malformed_args = None"
  by (simp_all add: january_args_def malformed_args_def)

lemma discover_results_january:
  "discover_results fromisoformat_date ilike_ascii sample_db january_args =
     Inr [(post2, alice, 1, 0), (post1, alice, 1, 1)]"
  by (simp add: discover_results_def likes_bound_january counted_posts_sample
      discover_where_def bounds_january order_by_desc_def dt_le_def dt_key_def
      post1_def post2_def post3_def stamp_def author_absent)

lemma discover_results_malformed:
  "discover_results fromisoformat_date ilike_ascii sample_db malformed_args =
     Inr [(post2, alice, 1, 0), (post1, alice, 1, 1), (post3, bob, 0, 0)]"
  by (simp add: discover_results_def likes_bound_malformed counted_posts_sample
      discover_where_def bounds_malformed order_by_desc_def dt_key_def
      post1_def post2_def post3_def stamp_def author_absent)

lemma comment_json_Inr:
  assumes "Comment.user_id c \<in> User.user_id ` set (Users st)"
  shows "\<exists>j. comment_json st c = Inr j"
proof -
  from assms obtain a where "User_query_get st (Comment.user_id c) = Some a"
    using User_query_get_None [of st "Comment.user_id c"]
    by (cases "User_query_get st (Comment.user_id c)") auto
  then show ?thesis by (simp add: comment_json_def)
qed

lemma discover_post_json_Inr:
  assumes "\<forall>c \<in> set (Comments st). Comment.user_id c \<in> User.user_id ` set (Users st)"
  shows "\<exists>j. discover_post_json st uid row = Inr j"
proof -
  obtain post post_author likes comments where row: "row = (post, post_author, likes, comments)"
    by (cases row)
  have "\<exists>j. comment_json st c = Inr j" if "c \<in> set (post_comments st (Post.post_id post))" for c
  proof -
    from that have "c \<in> set (Comments st)" by (simp add: post_comments_def)
    with assms show ?thesis using comment_json_Inr by blast
  qed
  then obtain js where
    "collect (map (comment_json st) (post_comments st (Post.post_id post))) = Inr js"
    using collect_map_Inr [of "post_comments st (Post.post_id post)" "comment_json st"] by blast
  then show ?thesis by (simp add: discover_post_json_def row)
qed

lemma comments_have_authors_iff:
  "comments_have_authors st =
     (\<forall>c \<in> set (Comments st). Comment.user_id c \<in> User.user_id ` set (Users st))"
  by (force simp: comments_have_authors_def list_all_iff list_ex_iff)

lemma discover_ok:
  assumes "\<forall>c \<in> set (Comments st). Comment.user_id c \<in> User.user_id ` set (Users st)"
    and "likes_bound args = Inr bound"
  shows "status (get_discover_posts fromisoformat ilike st uid args) = 200"
proof -
  obtain results where r: "discover_results fromisoformat ilike st args = Inr results"
    using assms(2) by (simp add: discover_results_def)
  obtain js where "collect (map (discover_post_json st uid) results) = Inr js"
    using collect_map_Inr [of results "discover_post_json st uid"]
      discover_post_json_Inr [OF assms(1)] by blast
  with r show ?thesis by (simp add: get_discover_posts_def status_def)
qed

lemma likes_bound_readable:
  assumes "min_likes args = None \<or>
           (\<exists>s. min_likes args = Some s \<and> (\<not> isdigit s \<or> list_all decimal_char s))"
  shows "\<exists>bound. likes_bound args = Inr bound"
proof (cases "min_likes args")
  case None
  then show ?thesis by (simp add: likes_bound_def)
next
  case (Some s)
  with assms have "\<not> isdigit s \<or> list_all decimal_char s" by simp
  with Some show ?thesis
    by (auto simp: likes_bound_def py_int_def)
qed

lemma ignore_date_from:
  assumes "date_from args = Some s" "fromisoformat s = None"
  shows "get_discover_posts fromisoformat ilike st uid args =
         get_discover_posts fromisoformat ilike st uid (args\<lparr>date_from := None\<rparr>)"
proof -
  have "from_bound fromisoformat args = from_bound fromisoformat (args\<lparr>date_from := None\<rparr>)"
    using assms by (simp add: from_bound_def)
  then have w: "discover_where fromisoformat ilike args bound =
        discover_where fromisoformat ilike (args\<lparr>date_from := None\<rparr>) bound" for bound
    by (simp add: discover_where_def to_bound_def fun_eq_iff)
  have b: "likes_bound args = likes_bound (args\<lparr>date_from := None\<rparr>)"
    by (simp add: likes_bound_def)
  have "discover_results fromisoformat ilike st args =
        discover_results fromisoformat ilike st (args\<lparr>date_from := None\<rparr>)"
    unfolding discover_results_def b w ..
  then show ?thesis by (simp add: get_discover_posts_def)
qed

lemma ignore_date_to:
  assumes "date_to args = Some s" "fromisoformat s = None"
  shows "get_discover_posts fromisoformat ilike st uid args =
         get_discover_posts fromisoformat ilike st uid (args\<lparr>date_to := None\<rparr>)"
proof -
  have "to_bound fromisoformat args = to_bound fromisoformat (args\<lparr>date_to := None\<rparr>)"
    using assms by (simp add: to_bound_def)
  then have w: "discover_where fromisoformat ilike args bound =
        discover_where fromisoformat ilike (args\<lparr>date_to := None\<rparr>) bound" for bound
    by (simp add: discover_where_def from_bound_def fun_eq_iff)
  have b: "likes_bound args = likes_bound (args\<lparr>date_to := None\<rparr>)"
    by (simp add: likes_bound_def)
  have "discover_results fromisoformat ilike st args =
        discover_results fromisoformat ilike st (args\<lparr>date_to := None\<rparr>)"
    unfolding discover_results_def b w ..
  then show ?thesis by (simp add: get_discover_posts_def)
qed

lemma ignore_min_likes:
  assumes "min_likes args = Some s" "\<not> isdigit s"
  shows "get_discover_posts fromisoformat ilike st uid args =
         get_discover_posts fromisoformat ilike st uid (args\<lparr>min_likes := None\<rparr>)"
proof -
  have b: "likes_bound args = likes_bound (args\<lparr>min_likes := None\<rparr>)"
    using assms by (simp add: likes_bound_def)
  have w: "discover_where fromisoformat ilike args bound =
        discover_where fromisoformat ilike (args\<lparr>min_likes := None\<rparr>) bound" for bound
    by (simp add: discover_where_def from_bound_def to_bound_def fun_eq_iff)
  have "discover_results fromisoformat ilike st args =
        discover_results fromisoformat ilike st (args\<lparr>min_likes := None\<rparr>)"
    unfolding discover_results_def b w ..
  then show ?thesis by (simp add: get_discover_posts_def)
qed

text \<open>
  Filters that the handler's own tests turn away are ignored. A \<open>date_from\<close> or
  \<open>date_to\<close> that \<open>fromisoformat\<close> rejects, or a \<open>min_likes\<close> that fails
  \<open>str.isdigit\<close>, gives the response of the same request without that parameter. And
  whatever the two dates are, a request whose \<open>min_likes\<close> is absent, fails
  \<open>str.isdigit\<close> or consists of decimal digits is answered with status 200, in every
  state whose comments all have their author.
\<close>

theorem discover_invalid_filters_ignored:
  "(\<forall>s. date_from args = Some s \<and> fromisoformat s = None \<longrightarrow>
      get_discover_posts fromisoformat ilike st uid args =
      get_discover_posts fromisoformat ilike st uid (args\<lparr>date_from := None\<rparr>))
 \<and> (\<forall>s. date_to args = Some s \<and> fromisoformat s = None \<longrightarrow>
      get_discover_posts fromisoformat ilike st uid args =
      get_discover_posts fromisoformat ilike st uid (args\<lparr>date_to := None\<rparr>))
 \<and> (\<forall>s. min_likes args = Some s \<and> \<not> isdigit s \<longrightarrow>
      get_discover_posts fromisoformat ilike st uid args =
      get_discover_posts fromisoformat ilike st uid (args\<lparr>min_likes := None\<rparr>))
 \<and> (comments_have_authors st \<and>
     (min_likes args = None \<or>
      (\<exists>s. min_likes args = Some s \<and> (\<not> isdigit s \<or> list_all decimal_char s))) \<longrightarrow>
      status (get_discover_posts fromisoformat ilike st uid args) = 200)"
proof -
  have ok: "status (get_discover_posts fromisoformat ilike st uid args) = 200"
    if "comments_have_authors st" and "min_likes args = None \<or>
      (\<exists>s. min_likes args = Some s \<and> (\<not> isdigit s \<or> list_all decimal_char s))"
  proof -
    from likes_bound_readable [OF that(2)] obtain bound where "likes_bound args = Inr bound"
      by blast
    with that(1) show ?thesis
      unfolding comments_have_authors_iff by (rule discover_ok)
  qed
  show ?thesis
    using ignore_date_from [of args _ fromisoformat ilike st uid]
      ignore_date_to [of args _ fromisoformat ilike st uid]
      ignore_min_likes [of args _ fromisoformat ilike st uid] ok
    by blast
qed

lemma sample_comment_authors:
  "\<forall>c \<in> set (Comments sample_db). Comment.user_id c \<in> User.user_id ` set (Users sample_db)"
  by (simp add: sample_defs)

lemma status_january:
  "status (get_discover_posts fromisoformat_date ilike_ascii sample_db 1 january_args) = 200"
  using sample_comment_authors likes_bound_january by (rule discover_ok)

lemma status_malformed:
  "status (get_discover_posts fromisoformat_date ilike_ascii sample_db 1 malformed_args) = 200"
  using sample_comment_authors likes_bound_malformed by (rule discover_ok)

theorem discover_filters_applied_witness:
  "status (get_discover_posts fromisoformat_date ilike_ascii sample_db 1 january_args) = 200
   \<and> discover_results fromisoformat_date ilike_ascii sample_db january_args =
       Inr [(post2, alice, 1, 0), (post1, alice, 1, 1)]
   \<and> date_from january_args = Some ''2024-01-01''
   \<and> fromisoformat_date ''2024-01-01'' = Some (stamp 2024 1 1 0 0)
   \<and> date_to january_args = Some ''2024-01-31''
   \<and> fromisoformat_date ''2024-01-31'' = Some (stamp 2024 1 31 0 0)
   \<and> min_likes january_args = Some ''1'' \<and> isdigit ''1''
   \<and> dt_le (start_of_day (stamp 2024 1 1 0 0)) (Post.created_at post1)
   \<and> dt_le (Post.created_at post1) (end_of_day (stamp 2024 1 31 0 0))
   \<and> (\<exists>n. py_int ''1'' = Inr n \<and> n \<le> 1)"
proof -
  have a: "date_from january_args = Some ''2024-01-01''"
    "date_to january_args = Some ''2024-01-31''" "min_likes january_args = Some ''1''"
    by (simp_all add: january_args_def)
  from discover_filters_applied [OF status_january] obtain results where
    r: "discover_results fromisoformat_date ilike_ascii sample_db january_args = Inr results"
    and rows: "\<forall>(p, u, likes, comments) \<in> set results.
              p \<in> set (Posts sample_db)
            \<and> likes = likes_count sample_db (Post.post_id p)
            \<and> (\<forall>s d. date_from january_args = Some s \<and> s \<noteq> [] \<and>
                      fromisoformat_date s = Some d \<longrightarrow>
                   dt_le (start_of_day d) (Post.created_at p))
            \<and> (\<forall>s d. date_to january_args = Some s \<and> s \<noteq> [] \<and>
                      fromisoformat_date s = Some d \<longrightarrow>
                   dt_le (Post.created_at p) (end_of_day d))
            \<and> (\<forall>s. min_likes january_args = Some s \<and> isdigit s \<longrightarrow>
                   (\<exists>n. py_int s = Inr n \<and> n \<le> likes))"
    by blast
  from r have "results = [(post2, alice, 1, 0), (post1, alice, 1, 1)]"
    by (simp add: discover_results_january)
  then have "(post1, alice, 1, 1) \<in> set results" by simp
  with rows have row:
      "(\<forall>s d. date_from january_args = Some s \<and> s \<noteq> [] \<and>
                      fromisoformat_date s = Some d \<longrightarrow>
                   dt_le (start_of_day d) (Post.created_at post1))
            \<and> (\<forall>s d. date_to january_args = Some s \<and> s \<noteq> [] \<and>
                      fromisoformat_date s = Some d \<longrightarrow>
                   dt_le (Post.created_at post1) (end_of_day d))
            \<and> (\<forall>s. min_likes january_args = Some s \<and> isdigit s \<longrightarrow>
                   (\<exists>n. py_int s = Inr n \<and> n \<le> 1))"
    by fast
  have ne: "''2024-01-01'' \<noteq> []" "''2024-01-31'' \<noteq> []" by simp_all
  from row a ne parse_jan_1 parse_jan_31 isdigit_1
  have "dt_le (start_of_day (stamp 2024 1 1 0 0)) (Post.created_at post1)"
    "dt_le (Post.created_at post1) (end_of_day (stamp 2024 1 31 0 0))"
    "\<exists>n. py_int ''1'' = Inr n \<and> n \<le> 1"
    by blast+
  with status_january discover_results_january a parse_jan_1 parse_jan_31 isdigit_1
  show ?thesis by blast
qed

text \<open>
  Claim C3 as stated fails: with \<open>date_from\<close>, \<open>date_to\<close> and \<open>min_likes\<close> all supplied
  as \<open>2024-1-1\<close>, \<open>2024-1-31\<close> and \<open>+1\<close>, the response is successful and contains
  the post of 1 June 2020, which has no like.
\<close>

theorem discover_filters_counterexample:
  "discover_results fromisoformat_date ilike_ascii sample_db malformed_args =
     Inr [(post2, alice, 1, 0), (post1, alice, 1, 1), (post3, bob, 0, 0)]
   \<and> status (get_discover_posts fromisoformat_date ilike_ascii sample_db 1 malformed_args) = 200
   \<and> date_from malformed_args = Some ''2024-1-1''
   \<and> date_to malformed_args = Some ''2024-1-31''
   \<and> min_likes malformed_args = Some ''+1''
   \<and> date_of (Post.created_at post3) = (2020, 6, 1)
   \<and> likes_count sample_db (Post.post_id post3) = 0"
proof -
  have "date_from malformed_args = Some ''2024-1-1''"
    "date_to malformed_args = Some ''2024-1-31''" "min_likes malformed_args = Some ''+1''"
    by (simp_all add: malformed_args_def)
  moreover have "date_of (Post.created_at post3) = (2020, 6, 1)"
    by (simp add: date_of_def post3_def stamp_def)
  moreover have "likes_count sample_db (Post.post_id post3) = 0"
    by (simp add: likes_count_def count_distinct_def sample_defs)
  ultimately show ?thesis
    using discover_results_malformed status_malformed by blast
qed

theorem discover_invalid_filters_ignored_witness:
  "date_from malformed_args = Some ''2024-1-1'' \<and> fromisoformat_date ''2024-1-1'' = None
   \<and> date_to malformed_args = Some ''2024-1-31'' \<and> fromisoformat_date ''2024-1-31'' = None
   \<and> min_likes malformed_args = Some ''+1'' \<and> \<not> isdigit ''+1''
   \<and> comments_have_authors sample_db
   \<and> get_discover_posts fromisoformat_date ilike_ascii sample_db 1 malformed_args =
      get_discover_posts fromisoformat_date ilike_ascii sample_db 1
        (malformed_args\<lparr>date_from := None\<rparr>)
   \<and> get_discover_posts fromisoformat_date ilike_ascii sample_db 1 malformed_args =
      get_discover_posts fromisoformat_date ilike_ascii sample_db 1
        (malformed_args\<lparr>date_to := None\<rparr>)
   \<and> get_discover_posts fromisoformat_date ilike_ascii sample_db 1 malformed_args =
      get_discover_posts fromisoformat_date ilike_ascii sample_db 1
        (malformed_args\<lparr>min_likes := None\<rparr>)
   \<and> status (get_discover_posts fromisoformat_date ilike_ascii sample_db 1 malformed_args) = 200"
proof -
  have a: "date_from malformed_args = Some ''2024-1-1''"
    "date_to malformed_args = Some ''2024-1-31''" "min_likes malformed_args = Some ''+1''"
    by (simp_all add: malformed_args_def)
  have c: "comments_have_authors sample_db"
    using sample_comment_authors by (simp only: comments_have_authors_iff)
  from a c parse_short_1 parse_short_31 isdigit_plus_1
    discover_invalid_filters_ignored
      [of malformed_args fromisoformat_date ilike_ascii sample_db 1]
  show ?thesis by blast
qed

lemma likes_bound_superscript:
  "likes_bound (args\<lparr>min_likes := Some [CHR 0xB2]\<rparr>) = Inl ValueError"
  by (simp add: likes_bound_def isdigit_def isdigit_char_def py_int_def decimal_char_def)

lemma status_without_min_likes:
  "status (get_discover_posts fromisoformat_date ilike_ascii sample_db 1
             (malformed_args\<lparr>min_likes := None\<rparr>)) = 200"
proof -
  have "likes_bound (malformed_args\<lparr>min_likes := None\<rparr>) = Inr None"
    by (simp add: likes_bound_def)
  with sample_comment_authors show ?thesis by (rule discover_ok)
qed

text \<open>
  Claim C10. The claim asks that a \<open>min_likes\<close> that is no number be ignored and the
  request answered 200. The handler does so only for what \<open>str.isdigit\<close> turns away: the
  superscript two, U+00B2, passes \<open>isdigit\<close>, \<open>int\<close> raises ValueError on it, and the
  handler answers 500 with \<open>{"error": "Failed to fetch posts"}\<close>, in every state and for
  every other parameter, where the same request without \<open>min_likes\<close> is answered 200.
\<close>

theorem discover_superscript_min_likes:
  "isdigit [CHR 0xB2]
   \<and> py_int [CHR 0xB2] = Inl ValueError
   \<and> get_discover_posts fromisoformat ilike st uid (args\<lparr>min_likes := Some [CHR 0xB2]\<rparr>) =
       (JObj [(''error'', JStr ''Failed to fetch posts'')], 500)
   \<and> status (get_discover_posts fromisoformat_date ilike_ascii sample_db 1
                (malformed_args\<lparr>min_likes := Some [CHR 0xB2]\<rparr>)) = 500
   \<and> status (get_discover_posts fromisoformat_date ilike_ascii sample_db 1
                (malformed_args\<lparr>min_likes := None\<rparr>)) = 200"
proof -
  have a: "isdigit [CHR 0xB2]"
    by (simp add: isdigit_def isdigit_char_def)
  have b: "py_int [CHR 0xB2] = Inl ValueError"
    by (simp add: py_int_def decimal_char_def)
  have c: "get_discover_posts fromisoformat ilike st uid (args\<lparr>min_likes := Some [CHR 0xB2]\<rparr>) =
       (JObj [(''error'', JStr ''Failed to fetch posts'')], 500)" for fromisoformat ilike st uid args
    by (simp add: get_discover_posts_def discover_results_def likes_bound_superscript)
  have d: "status (get_discover_posts fromisoformat_date ilike_ascii sample_db 1
                (malformed_args\<lparr>min_likes := Some [CHR 0xB2]\<rparr>)) = 500"
    by (simp only: c status_def snd_conv)
  from a b c d status_without_min_likes show ?thesis by (intro conjI)
qed

section \<open>Registration and profile update: properties\<close>

lemma add_user_duplicate:
  assumes "\<exists>u \<in> set (Users st). username u = un \<or> email u = em"
  shows "add_user now st un nm em ph = Inl IntegrityError"
  using assms by (auto simp: add_user_def list_ex_iff)

lemma handle_register_duplicate:
  assumes "content_type req = ''application/json''"
    and "map_of (data req) ''username'' = Some un" "map_of (data req) ''name'' = Some nm"
    and "map_of (data req) ''email'' = Some em" "map_of (data req) ''password'' = Some pw"
    and "validate_email em" "validate_password pw"
    and "\<exists>u \<in> set (Users st). username u = un \<or> email u = em"
  shows "handle_register validate_email validate_password generate_password_hash now st req =
           (st, (JObj [(''error'', JStr ''Username or email already exists'')], 409))"
  using assms(1-7) add_user_duplicate [OF assms(8), of now nm "generate_password_hash pw"]
  by (simp add: handle_register_def)

lemma handle_register_409_unchanged:
  "status (snd (handle_register validate_email validate_password generate_password_hash now st req))
     = 409 \<Longrightarrow>
   fst (handle_register validate_email validate_password generate_password_hash now st req) = st"
  by (auto simp: handle_register_def status_def split: option.splits sum.splits if_splits)

lemma find_Some_image: "(find (\<lambda>x. Some (f x) = Some k) xs \<noteq> None) = (k \<in> f ` set xs)"
  by (auto simp: find_None_iff)

lemma update_username_taken:
  assumes "User_query_get st uid = Some user"
    and "map_of body_data ''username'' = Some v" "v \<noteq> []" "v \<noteq> username user"
    and "\<exists>u \<in> set (Users st). username u = v"
  shows "update_user_profile st uid body_data =
           (st, (JObj [(''error'', JStr ''Username already taken'')], 400))"
proof -
  have c: "changed (map_of body_data ''username'') (username user) = Some v"
    using assms(2-4) by (simp add: changed_def)
  have "find (\<lambda>u. Some (username u) = Some v) (Users st) \<noteq> None"
    using assms(5) by (auto simp: find_None_iff)
  with c assms(1) show ?thesis
    by (simp add: update_user_profile_def update_user_profile_at_def)
qed

lemma update_email_taken:
  assumes "User_query_get st uid = Some user"
    and "changed (map_of body_data ''username'') (username user) = None \<or>
         (\<exists>v. changed (map_of body_data ''username'') (username user) = Some v \<and>
              (\<forall>u \<in> set (Users st). username u \<noteq> v))"
    and "map_of body_data ''email'' = Some w" "w \<noteq> []" "w \<noteq> email user"
    and "\<exists>u \<in> set (Users st). email u = w"
  shows "update_user_profile st uid body_data =
           (st, (JObj [(''error'', JStr ''Email already registered'')], 400))"
proof -
  have f: "find (\<lambda>u. Some (email u) = Some w) (Users st) \<noteq> None"
    using assms(6) by (auto simp: find_None_iff)
  from assms(2) show ?thesis
  proof
    assume n: "changed (map_of body_data ''username'') (username user) = None"
    have "changed (map_of body_data ''email'') (email user) = Some w"
      using assms(3-5) by (simp add: changed_def)
    with n f assms(1) show ?thesis
      by (simp add: update_user_profile_def update_user_profile_at_def)
  next
    assume "\<exists>v. changed (map_of body_data ''username'') (username user) = Some v \<and>
              (\<forall>u \<in> set (Users st). username u \<noteq> v)"
    then obtain v where v: "changed (map_of body_data ''username'') (username user) = Some v"
      and free: "\<forall>u \<in> set (Users st). username u \<noteq> v" by blast
    have nf: "find (\<lambda>u. Some (username u) = Some v) (Users st) = None"
      using free by (auto simp: find_None_iff)
    have "changed (map_of body_data ''email'') (email (user\<lparr>username := v\<rparr>)) = Some w"
      using assms(3-5) by (simp add: changed_def)
    with v nf f assms(1) show ?thesis
      by (simp add: update_user_profile_def update_user_profile_at_def)
  qed
qed

text \<open>
  What the two handlers do with a username or email that is already stored. A
  registration that passes validation is refused by the store, rolled back and
  answered 409 with the stored state unchanged; and whenever a registration is answered
  409 the state is unchanged. The profile update looks the new values up first: a new
  username that some user already has is answered 400 before any write, and so is a
  new email that some user already has (when the username part passed), with the
  stored state unchanged.
\<close>

theorem duplicate_user_rejected:
  "(content_type req = ''application/json'' \<and>
    map_of (data req) ''username'' = Some un \<and> map_of (data req) ''name'' = Some nm \<and>
    map_of (data req) ''email'' = Some em \<and> map_of (data req) ''password'' = Some pw \<and>
    validate_email em \<and> validate_password pw \<and>
    (\<exists>u \<in> set (Users st). username u = un \<or> email u = em) \<longrightarrow>
    handle_register validate_email validate_password generate_password_hash now st req =
      (st, (JObj [(''error'', JStr ''Username or email already exists'')], 409)))
 \<and> (status (snd (handle_register validate_email validate_password generate_password_hash
                    now st req)) = 409 \<longrightarrow>
    fst (handle_register validate_email validate_password generate_password_hash now st req)
      = st)
 \<and> (User_query_get st uid = Some user \<and>
    map_of body_data ''username'' = Some v \<and> v \<noteq> [] \<and> v \<noteq> username user \<and>
    (\<exists>u \<in> set (Users st). username u = v) \<longrightarrow>
    update_user_profile st uid body_data =
      (st, (JObj [(''error'', JStr ''Username already taken'')], 400)))
 \<and> (User_query_get st uid = Some user \<and>
    (changed (map_of body_data ''username'') (username user) = None \<or>
     (\<exists>v'. changed (map_of body_data ''username'') (username user) = Some v' \<and>
           (\<forall>u \<in> set (Users st). username u \<noteq> v'))) \<and>
    map_of body_data ''email'' = Some w \<and> w \<noteq> [] \<and> w \<noteq> email user \<and>
    (\<exists>u \<in> set (Users st). email u = w) \<longrightarrow>
    update_user_profile st uid body_data =
      (st, (JObj [(''error'', JStr ''Email already registered'')], 400)))"
  using handle_register_duplicate [of req un nm em pw validate_email validate_password st
      generate_password_hash now]
    handle_register_409_unchanged [of validate_email validate_password generate_password_hash
      now st req]
    update_username_taken [of st uid user body_data v]
    update_email_taken [of st uid user body_data w]
  by blast

lemma sample_users:
  "User_query_get sample_db 1 = Some alice" "User_query_get sample_db 2 = Some bob"
  by (simp_all add: User_query_get_def sample_defs)

theorem duplicate_user_rejected_witness:
  "content_type duplicate_registration = ''application/json''
   \<and> map_of (data duplicate_registration) ''username'' = Some ''alice''
   \<and> map_of (data duplicate_registration) ''name'' = Some ''Al''
   \<and> map_of (data duplicate_registration) ''email'' = Some ''al@example.com''
   \<and> map_of (data duplicate_registration) ''password'' = Some ''secret123''
   \<and> has_at_sign ''al@example.com'' \<and> at_least_8 ''secret123''
   \<and> (\<exists>u \<in> set (Users sample_db). username u = ''alice'' \<or> email u = ''al@example.com'')
   \<and> handle_register has_at_sign at_least_8 sample_hash (stamp 2024 2 1 0 0) sample_db
         duplicate_registration =
       (sample_db, (JObj [(''error'', JStr ''Username or email already exists'')], 409))
   \<and> User_query_get sample_db 2 = Some bob
   \<and> map_of [(''username'', ''carol'')] ''username'' = Some ''carol''
   \<and> (\<exists>u \<in> set (Users sample_db). username u = ''carol'')
   \<and> update_user_profile sample_db 2 [(''username'', ''carol'')] =
       (sample_db, (JObj [(''error'', JStr ''Username already taken'')], 400))
   \<and> changed (map_of [(''email'', ''carol@example.com'')] ''username'') (username bob) = None
   \<and> map_of [(''email'', ''carol@example.com'')] ''email'' = Some ''carol@example.com''
   \<and> (\<exists>u \<in> set (Users sample_db). email u = ''carol@example.com'')
   \<and> update_user_profile sample_db 2 [(''email'', ''carol@example.com'')] =
       (sample_db, (JObj [(''error'', JStr ''Email already registered'')], 400))"
proof -
  have r: "content_type duplicate_registration = ''application/json''"
    "map_of (data duplicate_registration) ''username'' = Some ''alice''"
    "map_of (data duplicate_registration) ''name'' = Some ''Al''"
    "map_of (data duplicate_registration) ''email'' = Some ''al@example.com''"
    "map_of (data duplicate_registration) ''password'' = Some ''secret123''"
    by (simp_all add: duplicate_registration_def)
  have v: "has_at_sign ''al@example.com''" "at_least_8 ''secret123''"
    by (simp_all add: has_at_sign_def at_least_8_def)
  have d: "\<exists>u \<in> set (Users sample_db). username u = ''alice'' \<or> email u = ''al@example.com''"
    "\<exists>u \<in> set (Users sample_db). username u = ''carol''"
    "\<exists>u \<in> set (Users sample_db). email u = ''carol@example.com''"
    by (simp_all add: sample_defs)
  have n: "''carol'' \<noteq> []" "''carol'' \<noteq> username bob"
    "''carol@example.com'' \<noteq> []" "''carol@example.com'' \<noteq> email bob"
    by (simp_all add: bob_def)
  have m: "map_of [(''username'', ''carol'')] ''username'' = Some ''carol''"
    "changed (map_of [(''email'', ''carol@example.com'')] ''username'') (username bob) = None"
    "map_of [(''email'', ''carol@example.com'')] ''email'' = Some ''carol@example.com''"
    by (simp_all add: changed_def)
  note th1 = duplicate_user_rejected [where req = duplicate_registration and un = "''alice''"
      and nm = "''Al''" and em = "''al@example.com''" and pw = "''secret123''"
      and validate_email = has_at_sign and validate_password = at_least_8 and st = sample_db
      and generate_password_hash = sample_hash and now = "stamp 2024 2 1 0 0" and uid = 2
      and user = bob and body_data = "[(''username'', ''carol'')]" and v = "''carol''"
      and w = "''carol@example.com''"]
  note th2 = duplicate_user_rejected [where req = duplicate_registration and un = "''alice''"
      and nm = "''Al''" and em = "''al@example.com''" and pw = "''secret123''"
      and validate_email = has_at_sign and validate_password = at_least_8 and st = sample_db
      and generate_password_hash = sample_hash and now = "stamp 2024 2 1 0 0" and uid = 2
      and user = bob and body_data = "[(''email'', ''carol@example.com'')]" and v = "''carol''"
      and w = "''carol@example.com''"]
  have one: "handle_register has_at_sign at_least_8 sample_hash (stamp 2024 2 1 0 0) sample_db
         duplicate_registration =
       (sample_db, (JObj [(''error'', JStr ''Username or email already exists'')], 409))"
    using th1 [THEN conjunct1] r v d(1) by (elim impE) (intro conjI, assumption+)
  have two: "update_user_profile sample_db 2 [(''username'', ''carol'')] =
       (sample_db, (JObj [(''error'', JStr ''Username already taken'')], 400))"
    using th1 [THEN conjunct2, THEN conjunct2, THEN conjunct1] sample_users(2) m(1) n(1,2) d(2)
    by (elim impE) (intro conjI, assumption+)
  have three: "update_user_profile sample_db 2 [(''email'', ''carol@example.com'')] =
       (sample_db, (JObj [(''error'', JStr ''Email already registered'')], 400))"
    using th2 [THEN conjunct2, THEN conjunct2, THEN conjunct2] sample_users(2) m(2,3) n(3,4) d(3)
    by (elim impE) (intro conjI disjI1, assumption+)
  from r v d m sample_users(2) one two three show ?thesis by (intro conjI) assumption+
qed

lemma register_dave:
  "handle_register has_at_sign at_least_8 sample_hash (stamp 2024 2 1 0 0) sample_db
     dave_registration =
   (sample_db_with_dave,
    (JObj [(''message'', JStr ''User registered successfully''), (''user_id'', JInt 4)], 201))"
  by (simp add: handle_register_def dave_registration_def has_at_sign_def at_least_8_def
      add_user_def sample_db_with_dave_def dave_def)
     (simp add: sample_defs)

lemma update_after_dave:
  "update_user_profile_at sample_db sample_db_with_dave 1 [(''username'', ''dave'')] =
     (sample_db_with_dave, (JObj [(''error'', JStr ''Failed to update profile'')], 500))"
  by (simp add: update_user_profile_at_def User_query_get_def changed_def commit_user_def
      sample_db_with_dave_def dave_def sample_defs)

lemma update_never_409:
  "status (snd (update_user_profile_at seen st uid body_data)) \<noteq> 409"
proof (cases "User_query_get seen uid")
  case None
  then show ?thesis by (simp add: update_user_profile_at_def status_def)
next
  case (Some user)
  then show ?thesis
    by (simp add: update_user_profile_at_def status_def Let_def split: sum.split)
qed

text \<open>
  Claim C6. The claim holds of the registration, which catches the refusal of the store,
  rolls back and answers 409. It fails on the profile update, which also writes a User
  row: when the store refuses its commit, here because the registration of dave was
  committed between the handler's username lookup and its commit, the handler's
  generic branch answers 500 with \<open>{"error": "Failed to update profile"}\<close>; and no path
  of the profile update answers 409.
\<close>

theorem update_refused_by_store:
  "handle_register has_at_sign at_least_8 sample_hash (stamp 2024 2 1 0 0) sample_db
     dave_registration =
     (sample_db_with_dave,
      (JObj [(''message'', JStr ''User registered successfully''), (''user_id'', JInt 4)], 201))
   \<and> commit_user sample_db_with_dave (alice\<lparr>username := ''dave''\<rparr>) = Inl IntegrityError
   \<and> update_user_profile_at sample_db sample_db_with_dave 1 [(''username'', ''dave'')] =
       (sample_db_with_dave, (JObj [(''error'', JStr ''Failed to update profile'')], 500))
   \<and> status (snd (update_user_profile_at seen st uid body_data)) \<noteq> 409"
proof -
  have r: "commit_user sample_db_with_dave (alice\<lparr>username := ''dave''\<rparr>)
             = Inl IntegrityError"
    by (simp add: commit_user_def sample_db_with_dave_def dave_def sample_defs)
  from register_dave r update_after_dave update_never_409 [of seen st uid body_data]
  show ?thesis by (intro conjI)
qed

end
